theory Spec2Isabelle
  imports Complex_Main "HOL-Library.Sublist" "HOL-Library.Multiset"
begin

unbundle bit_operations_syntax

section \<open>Python values used by both engines\<close>

text \<open>
  Python \<open>str\<close> values are embedded as \<open>string\<close> (lists of 8-bit characters) and are
  read as ASCII text: the character classes below are the ASCII part of what
  \<open>str.isspace\<close>, \<open>str.isdigit\<close>, \<open>str.isupper\<close>, \<open>str.islower\<close> and \<open>str.lower\<close>
  compute. Python \<open>float\<close> values (font sizes, scores, multipliers) are embedded as
  \<open>real\<close> with exact arithmetic; \<open>int\<close> values that are only counted or indexed are
  \<open>nat\<close>, span flags are \<open>int\<close>.

  Exact arithmetic differs from the source's IEEE doubles by the rounding of each
  product, sum and quotient (for instance \<open>0.2 * 0.7 * 0.6\<close> is \<open>0.084\<close> here and
  \<open>0.08399999999999999\<close> there, and a value that is exactly on a threshold here can
  fall beside it there). The theorems below therefore state numeric bounds only with a
  margin that the rounding cannot consume, or at inputs where the double results are
  exact.
\<close>

definition ascii_upper :: string where
  "ascii_upper = ''ABCDEFGHIJKLMNOPQRSTUVWXYZ''"

definition ascii_lower :: string where
  "ascii_lower = ''abcdefghijklmnopqrstuvwxyz''"

definition ascii_digits :: string where
  "ascii_digits = ''0123456789''"

definition is_upper :: "char \<Rightarrow> bool" where
  "is_upper c = (c \<in> set ascii_upper)"

definition is_lower :: "char \<Rightarrow> bool" where
  "is_lower c = (c \<in> set ascii_lower)"

definition is_digit :: "char \<Rightarrow> bool" where
  "is_digit c = (c \<in> set ascii_digits)"

text \<open>\<open>str.isspace\<close> on ASCII: tab, line feed, vertical tab, form feed, carriage
  return, the four separators 0x1C..0x1F and the space.\<close>

definition is_space :: "char \<Rightarrow> bool" where
  "is_space c = (c \<in> set [CHR 0x09, CHR 0x0A, CHR 0x0B, CHR 0x0C, CHR 0x0D,
                           CHR 0x1C, CHR 0x1D, CHR 0x1E, CHR 0x1F, CHR '' ''])"

definition lower_char :: "char \<Rightarrow> char" where
  "lower_char c = (case map_of (zip ascii_upper ascii_lower) c of Some d \<Rightarrow> d | None \<Rightarrow> c)"

text \<open>\<open>s.lower()\<close>, \<open>s.strip()\<close>, \<open>s.split()\<close>, \<open>needle in s\<close>, \<open>s.startswith(p)\<close>.\<close>

definition py_lower :: "string \<Rightarrow> string" where
  "py_lower s = map lower_char s"

definition py_strip :: "string \<Rightarrow> string" where
  "py_strip s = rev (dropWhile is_space (rev (dropWhile is_space s)))"

fun split_aux :: "string \<Rightarrow> string \<Rightarrow> string list" where
  "split_aux cur [] = (if cur = [] then [] else [cur])"
| "split_aux cur (c # cs) =
     (if is_space c then (if cur = [] then split_aux [] cs else cur # split_aux [] cs)
      else split_aux (cur @ [c]) cs)"

definition py_split :: "string \<Rightarrow> string list" where
  "py_split s = split_aux [] s"

definition str_in :: "string \<Rightarrow> string \<Rightarrow> bool" where
  "str_in needle hay = sublist needle hay"

definition startswith :: "string \<Rightarrow> string \<Rightarrow> bool" where
  "startswith s p = prefix p s"

text \<open>\<open>s.isdigit()\<close>: non-empty and digits only. \<open>s.isupper()\<close>: at least one cased
  character and no lower-case one.\<close>

definition py_isdigit :: "string \<Rightarrow> bool" where
  "py_isdigit s = (s \<noteq> [] \<and> list_all is_digit s)"

definition py_isupper :: "string \<Rightarrow> bool" where
  "py_isupper s = (list_ex is_upper s \<and> \<not> list_ex is_lower s)"

text \<open>\<open>s.istitle()\<close>, as CPython scans it: an upper-case character may only follow an
  uncased one, a lower-case character only a cased one, and there is a cased character.
  The two flags are \<open>previous_is_cased\<close> and \<open>cased\<close>.\<close>

fun istitle_scan :: "bool \<Rightarrow> bool \<Rightarrow> string \<Rightarrow> bool" where
  "istitle_scan prev cased [] = cased"
| "istitle_scan prev cased (c # cs) =
     (if is_upper c then (if prev then False else istitle_scan True True cs)
      else if is_lower c then (if \<not> prev then False else istitle_scan True True cs)
      else istitle_scan False cased cs)"

definition py_istitle :: "string \<Rightarrow> bool" where
  "py_istitle s = istitle_scan False False s"

text \<open>\<open>str(n)\<close> for a non-negative integer, and the number a level label \<open>H<n>\<close> carries.\<close>

definition digit_char :: "nat \<Rightarrow> char" where
  "digit_char d = ascii_digits ! d"

fun py_str_nat :: "nat \<Rightarrow> string" where
  "py_str_nat n = (if n < 10 then [digit_char n] else py_str_nat (n div 10) @ [digit_char (n mod 10)])"

declare py_str_nat.simps [simp del]

definition digit_value :: "char \<Rightarrow> nat" where
  "digit_value c = (case map_of (zip ascii_digits [0, 1, 2, 3, 4, 5, 6, 7, 8, 9]) c of Some d \<Rightarrow> d | None \<Rightarrow> 0)"

definition level_number :: "string \<Rightarrow> nat" where
  "level_number lbl = foldl (\<lambda>acc c. 10 * acc + digit_value c) 0 (tl lbl)"

text \<open>\<open>sorted(xs, key=k, reverse=True)\<close>: Python's sort is stable, and with
  \<open>reverse=True\<close> elements with equal keys keep their original order.\<close>

definition py_sorted_desc :: "('a \<Rightarrow> real) \<Rightarrow> 'a list \<Rightarrow> 'a list" where
  "py_sorted_desc k xs = sort_key (\<lambda>x. - k x) xs"

subsection \<open>Regular expressions (\<open>re.match\<close>)\<close>

text \<open>
  The patterns of the source are written in a small regular-expression datatype and
  matched by derivatives. \<open>re.match\<close> anchors at the start of the string; a pattern
  without a final \<open>$\<close> accepts when some prefix of the string matches, a pattern with a
  final \<open>$\<close> when the whole string matches, or the whole string without one final line
  feed. \<^verbatim>\<open>\d\<close> is \<open>Atom is_digit\<close> and \<^verbatim>\<open>\s\<close> is \<open>Atom is_space\<close>.
\<close>

datatype regex = Zero | One | Atom "char \<Rightarrow> bool" | Alt regex regex | Seq regex regex | Star regex

fun nullable :: "regex \<Rightarrow> bool" where
  "nullable Zero = False"
| "nullable One = True"
| "nullable (Atom p) = False"
| "nullable (Alt r s) = (nullable r \<or> nullable s)"
| "nullable (Seq r s) = (nullable r \<and> nullable s)"
| "nullable (Star r) = True"

fun deriv :: "char \<Rightarrow> regex \<Rightarrow> regex" where
  "deriv c Zero = Zero"
| "deriv c One = Zero"
| "deriv c (Atom p) = (if p c then One else Zero)"
| "deriv c (Alt r s) = Alt (deriv c r) (deriv c s)"
| "deriv c (Seq r s) =
     (if nullable r then Alt (Seq (deriv c r) s) (deriv c s) else Seq (deriv c r) s)"
| "deriv c (Star r) = Seq (deriv c r) (Star r)"

fun match_full :: "regex \<Rightarrow> string \<Rightarrow> bool" where
  "match_full r [] = nullable r"
| "match_full r (c # cs) = match_full (deriv c r) cs"

fun match_prefix :: "regex \<Rightarrow> string \<Rightarrow> bool" where
  "match_prefix r [] = nullable r"
| "match_prefix r (c # cs) = (nullable r \<or> match_prefix (deriv c r) cs)"

definition Plus :: "regex \<Rightarrow> regex" where
  "Plus r = Seq r (Star r)"

definition Opt :: "regex \<Rightarrow> regex" where
  "Opt r = Alt r One"

definition Chr :: "char \<Rightarrow> regex" where
  "Chr c = Atom (\<lambda>d. d = c)"

fun Lit :: "string \<Rightarrow> regex" where
  "Lit [] = One"
| "Lit (c # cs) = Seq (Chr c) (Lit cs)"

fun Seqs :: "regex list \<Rightarrow> regex" where
  "Seqs [] = One"
| "Seqs (r # rs) = Seq r (Seqs rs)"

datatype pattern = Open_End regex | Dollar_End regex

definition re_match :: "pattern \<Rightarrow> string \<Rightarrow> bool" where
  "re_match p s =
     (case p of
        Open_End r \<Rightarrow> match_prefix r s
      | Dollar_End r \<Rightarrow>
          match_full r s \<or> (s \<noteq> [] \<and> last s = CHR 0x0A \<and> match_full r (butlast s)))"

section \<open>Challenge 1a: structure inference (\<open>PDFProcessor\<close>)\<close>

subsection \<open>\<open>determine_heading_level\<close>\<close>

text \<open>The loop \<open>for i, size in enumerate(sorted_sizes[:6])\<close>: the index of the first size
  that \<open>font_size\<close> reaches, if any.\<close>

fun level_scan :: "real \<Rightarrow> real list \<Rightarrow> nat \<Rightarrow> nat option" where
  "level_scan font_size [] i = None"
| "level_scan font_size (s # rest) i =
     (if font_size \<ge> s then Some i else level_scan font_size rest (Suc i))"

definition determine_heading_level :: "real \<Rightarrow> real list \<Rightarrow> string" where
  "determine_heading_level font_size font_sizes =
     (let sorted_sizes = py_sorted_desc (\<lambda>x. x) (remdups font_sizes) in
      case level_scan font_size (take 6 sorted_sizes) 0 of
        Some i \<Rightarrow> ''H'' @ py_str_nat (i + 1)
      | None \<Rightarrow> ''H6'')"

subsection \<open>\<open>heading_patterns\<close> and \<open>is_likely_heading\<close>\<close>

definition numbered_tail :: "regex list" where
  "numbered_tail = [Opt (Chr CHR ''.''), Plus (Atom is_space), Atom is_upper,
                    Star (Atom (\<lambda>c. c \<noteq> CHR ''.''))]"

text \<open>
  The eight \<open>heading_patterns\<close>, in the source's order:
  \<^verbatim>\<open>^\d+\.?\s+[A-Z][^.]*$\<close>,
  \<^verbatim>\<open>^\d+\.\d+\.?\s+[A-Z][^.]*$\<close>,
  \<^verbatim>\<open>^\d+\.\d+\.\d+\.?\s+[A-Z][^.]*$\<close>,
  \<^verbatim>\<open>^[A-Z][A-Z\s]+$\<close>,
  \<^verbatim>\<open>^[A-Z][a-z\s]+$\<close>,
  \<^verbatim>\<open>^Chapter\s+\d+\<close>,
  \<^verbatim>\<open>^Section\s+\d+\<close>,
  \<^verbatim>\<open>^Appendix\s+[A-Z]\<close>.
  \<open>numbered_tail\<close> is the common end \<^verbatim>\<open>\.?\s+[A-Z][^.]*\<close> of the first three.
\<close>

definition heading_patterns :: "pattern list" where
  "heading_patterns =
    [ Dollar_End (Seqs (Plus (Atom is_digit) # numbered_tail)),
      Dollar_End (Seqs ([Plus (Atom is_digit), Chr CHR ''.'', Plus (Atom is_digit)] @ numbered_tail)),
      Dollar_End (Seqs ([Plus (Atom is_digit), Chr CHR ''.'', Plus (Atom is_digit), Chr CHR ''.'',
                         Plus (Atom is_digit)] @ numbered_tail)),
      Dollar_End (Seq (Atom is_upper) (Plus (Atom (\<lambda>c. is_upper c \<or> is_space c)))),
      Dollar_End (Seq (Atom is_upper) (Plus (Atom (\<lambda>c. is_lower c \<or> is_space c)))),
      Open_End (Seqs [Lit ''Chapter'', Plus (Atom is_space), Plus (Atom is_digit)]),
      Open_End (Seqs [Lit ''Section'', Plus (Atom is_space), Plus (Atom is_digit)]),
      Open_End (Seqs [Lit ''Appendix'', Plus (Atom is_space), Atom is_upper]) ]"

definition is_likely_heading :: "string \<Rightarrow> real \<Rightarrow> bool \<Rightarrow> real \<Rightarrow> bool" where
  "is_likely_heading text0 font_size is_bold avg_font_size =
     (let t = py_strip text0 in
      if length t < 2 \<or> length t > 200 then False
      else if font_size < avg_font_size * 1.1 then False
      else if list_ex (\<lambda>p. re_match p t) heading_patterns then True
      else if is_bold \<and> font_size \<ge> avg_font_size * 1.2 then True
      else if py_isupper t \<and> length (py_split t) \<le> 10 then True
      else False)"

subsection \<open>The parsed document\<close>

text \<open>
  What PyMuPDF hands over (\<open>page.get_text("dict")["blocks"]\<close>): a page is a list of
  blocks, a text block has lines, an image block has no \<open>"lines"\<close> key, a line is a list of
  spans. \<open>doc_title\<close> is \<open>doc.metadata.get('title')\<close>, \<open>None\<close> when the metadata or the key
  is missing. The extractors of this and the next three subsections are the source's
  functions on a document all of whose PyMuPDF calls succeed; the calls that raise and
  the \<open>except\<close> handlers of the source follow in the subsection on failing calls.
\<close>

record span =
  span_text :: string
  span_size :: real
  span_flags :: int

type_synonym line = "span list"

datatype block = TextBlock "line list" | ImageBlock

type_synonym page = "block list"

record document =
  doc_title :: "string option"
  doc_pages :: "page list"

record heading =
  h_level :: string
  h_text :: string
  h_page :: nat

record structure_result =
  res_title :: string
  res_outline :: "heading list"

text \<open>The exceptions of the PyMuPDF calls, by the call that raises.\<close>

datatype error = OpenError | MetadataError | PageError | CloseError

definition block_lines :: "block \<Rightarrow> line list" where
  "block_lines b = (case b of TextBlock ls \<Rightarrow> ls | ImageBlock \<Rightarrow> [])"

definition line_text :: "line \<Rightarrow> string" where
  "line_text l = py_strip (concat (map span_text l))"

definition line_font_size :: "line \<Rightarrow> real" where
  "line_font_size l = foldl max 0 (map span_size l)"

definition line_is_bold :: "line \<Rightarrow> bool" where
  "line_is_bold l = list_ex (\<lambda>s. span_flags s AND 16 \<noteq> 0) l"

subsection \<open>Title resolution\<close>

definition extract_title_from_metadata :: "document \<Rightarrow> string option" where
  "extract_title_from_metadata doc =
     (case doc_title doc of
        None \<Rightarrow> None
      | Some raw \<Rightarrow>
          if raw = [] then None
          else (let title = py_strip raw in
                if title \<noteq> [] \<and> length title > 1 then Some title else None))"

text \<open>\<^verbatim>\<open>^page\s+\d+\<close> and \<^verbatim>\<open>^\d+$\<close>.\<close>

definition page_number_pattern :: pattern where
  "page_number_pattern = Open_End (Seqs [Lit ''page'', Plus (Atom is_space), Plus (Atom is_digit)])"

definition digits_pattern :: pattern where
  "digits_pattern = Dollar_End (Plus (Atom is_digit))"

definition is_title_candidate :: "string \<Rightarrow> real \<Rightarrow> bool" where
  "is_title_candidate t max_size =
     (max_size > 0 \<and> length t > 3 \<and> length t < 300 \<and> \<not> py_isdigit t
      \<and> \<not> re_match page_number_pattern (py_lower t)
      \<and> \<not> re_match digits_pattern (py_strip t))"

definition title_candidates :: "page \<Rightarrow> (string \<times> real) list" where
  "title_candidates first_page =
     concat (map (\<lambda>b. concat (map (\<lambda>l. if is_title_candidate (line_text l) (line_font_size l)
                                          then [(line_text l, line_font_size l)] else [])
                                   (block_lines b)))
                 (take 15 first_page))"

definition extract_title_from_first_page :: "document \<Rightarrow> string option" where
  "extract_title_from_first_page doc =
     (case doc_pages doc of
        [] \<Rightarrow> None
      | first_page # _ \<Rightarrow>
          (case py_sorted_desc snd (title_candidates first_page) of
             [] \<Rightarrow> None
           | c # _ \<Rightarrow> Some (fst c)))"

subsection \<open>\<open>extract_outline\<close>\<close>

definition all_font_sizes :: "document \<Rightarrow> real list" where
  "all_font_sizes doc =
     concat (map (\<lambda>p. concat (map (\<lambda>b. concat (map (map span_size) (block_lines b))) p))
                 (doc_pages doc))"

text \<open>The body of the innermost loop of the second pass: one line of page \<open>page_num\<close>
  (0-based), given the outline built so far.\<close>

definition scan_line :: "real \<Rightarrow> real list \<Rightarrow> nat \<Rightarrow> heading list \<Rightarrow> line \<Rightarrow> heading list" where
  "scan_line avg_font_size font_sizes page_num outline l =
     (if is_likely_heading (line_text l) (line_font_size l) (line_is_bold l) avg_font_size then
        (let level = determine_heading_level (line_font_size l) font_sizes in
         if \<not> list_ex (\<lambda>item. h_text item = line_text l \<and> h_page item = page_num + 1) outline
         then outline @ [\<lparr>h_level = level, h_text = line_text l, h_page = page_num + 1\<rparr>]
         else outline)
      else outline)"

definition scan_block :: "real \<Rightarrow> real list \<Rightarrow> nat \<Rightarrow> heading list \<Rightarrow> block \<Rightarrow> heading list" where
  "scan_block avg_font_size font_sizes page_num outline b =
     foldl (scan_line avg_font_size font_sizes page_num) outline (block_lines b)"

definition scan_page :: "real \<Rightarrow> real list \<Rightarrow> heading list \<Rightarrow> nat \<times> page \<Rightarrow> heading list" where
  "scan_page avg_font_size font_sizes outline np =
     foldl (scan_block avg_font_size font_sizes (fst np)) outline (snd np)"

definition extract_outline :: "document \<Rightarrow> heading list" where
  "extract_outline doc =
     (let font_sizes = all_font_sizes doc in
      if font_sizes = [] then []
      else (let avg_font_size = sum_list font_sizes / real (length font_sizes) in
            foldl (scan_page avg_font_size font_sizes) [] (enumerate 0 (doc_pages doc))))"

text \<open>
  For the de-duplication property: \<open>heading_candidates\<close> is the sequence of entries the
  second pass builds, in traversal order, before the duplicate test; \<open>first_occurrences\<close>
  is the specification's de-duplication by \<open>(text, page)\<close> (first occurrence wins,
  insertion order preserved), with the keys already seen as its first argument.
\<close>

definition heading_key :: "heading \<Rightarrow> string \<times> nat" where
  "heading_key h = (h_text h, h_page h)"

definition line_candidate :: "real \<Rightarrow> real list \<Rightarrow> nat \<Rightarrow> line \<Rightarrow> heading list" where
  "line_candidate avg_font_size font_sizes page_num l =
     (if is_likely_heading (line_text l) (line_font_size l) (line_is_bold l) avg_font_size
      then [\<lparr>h_level = determine_heading_level (line_font_size l) font_sizes,
             h_text = line_text l, h_page = page_num + 1\<rparr>]
      else [])"

definition heading_candidates :: "document \<Rightarrow> heading list" where
  "heading_candidates doc =
     (let font_sizes = all_font_sizes doc in
      if font_sizes = [] then []
      else (let avg_font_size = sum_list font_sizes / real (length font_sizes) in
            concat (map (\<lambda>np. concat (map (\<lambda>b. concat (map (line_candidate avg_font_size font_sizes (fst np))
                                                              (block_lines b)))
                                           (snd np)))
                        (enumerate 0 (doc_pages doc)))))"

fun first_occurrences :: "(string \<times> nat) set \<Rightarrow> heading list \<Rightarrow> heading list" where
  "first_occurrences seen [] = []"
| "first_occurrences seen (h # hs) =
     (if heading_key h \<in> seen then first_occurrences seen hs
      else h # first_occurrences (insert (heading_key h) seen) hs)"

text \<open>The duplicate test and append of \<open>scan_line\<close>, on keys.\<close>

definition add_heading :: "heading list \<Rightarrow> heading \<Rightarrow> heading list" where
  "add_heading outline h =
     (if heading_key h \<in> heading_key ` set outline then outline else outline @ [h])"

subsection \<open>\<open>process_single_pdf\<close> and \<open>process_pdfs\<close>\<close>

text \<open>\<open>a or b\<close> on optional strings: the first operand when it is truthy.\<close>

definition py_or :: "string option \<Rightarrow> string option \<Rightarrow> string option" where
  "py_or a b = (case a of Some s \<Rightarrow> (if s \<noteq> [] then Some s else b) | None \<Rightarrow> b)"

text \<open>The \<open>try\<close> block of \<open>process_single_pdf\<close>. \<open>stem\<close> is \<open>pdf_path.stem\<close>, \<open>opened\<close> what
  \<open>fitz.open\<close> does: it raises (\<open>Inl\<close>) or returns the document.\<close>

definition process_single_pdf_try :: "string \<Rightarrow> error + document \<Rightarrow> error + structure_result" where
  "process_single_pdf_try stem opened =
     (case opened of
        Inl e \<Rightarrow> Inl e
      | Inr doc \<Rightarrow>
          (let title = (case py_or (py_or (extract_title_from_metadata doc)
                                         (extract_title_from_first_page doc)) (Some stem) of
                          Some t \<Rightarrow> t | None \<Rightarrow> stem);
               outline = extract_outline doc
           in Inr \<lparr>res_title = title, res_outline = outline\<rparr>))"

definition process_single_pdf :: "string \<Rightarrow> error + document \<Rightarrow> structure_result" where
  "process_single_pdf stem opened =
     (case process_single_pdf_try stem opened of
        Inr r \<Rightarrow> r
      | Inl e \<Rightarrow> \<lparr>res_title = stem, res_outline = []\<rparr>)"

text \<open>The batch loop: one output file \<open><stem>.json\<close> per input file, in order.\<close>

definition process_pdfs :: "(string \<times> (error + document)) list \<Rightarrow> (string \<times> structure_result) list" where
  "process_pdfs pdf_files =
     map (\<lambda>pdf_file. (fst pdf_file @ ''.json'', process_single_pdf (fst pdf_file) (snd pdf_file)))
         pdf_files"

subsection \<open>Failing calls and the handlers of the source\<close>














section \<open>Challenge 1b: persona relevance (\<open>MLEnhancedPDFAnalyzer\<close>)\<close>

subsection \<open>Keyword tables\<close>

record persona_profile =
  high_priority :: "string list"
  medium_priority :: "string list"
  low_priority :: "string list"

definition persona_keywords :: "(string \<times> persona_profile) list" where
  "persona_keywords =
    [(''Travel Planner'',
      \<lparr>high_priority = [''travel'', ''trip'', ''vacation'', ''hotel'', ''restaurant'', ''tourism'',
                         ''destination'', ''itinerary'', ''attractions'', ''activities'',
                         ''sightseeing'', ''accommodation''],
       medium_priority = [''culture'', ''history'', ''food'', ''local'', ''guide'', ''places'',
                          ''visit'', ''explore'', ''experience''],
       low_priority = [''information'', ''tips'', ''advice'', ''recommendations'']\<rparr>),
     (''HR professional'',
      \<lparr>high_priority = [''form'', ''forms'', ''fillable'', ''onboarding'', ''compliance'',
                         ''employee'', ''HR'', ''human resources'', ''signature'', ''e-signature'',
                         ''document''],
       medium_priority = [''create'', ''convert'', ''edit'', ''export'', ''share'', ''PDF'',
                          ''Acrobat'', ''workflow''],
       low_priority = [''training'', ''skills'', ''learning'', ''tutorial'']\<rparr>),
     (''Food Contractor'',
      \<lparr>high_priority = [''food'', ''recipe'', ''cooking'', ''menu'', ''dinner'', ''meal'',
                         ''vegetarian'', ''gluten-free'', ''buffet'', ''catering'', ''ingredients''],
       medium_priority = [''preparation'', ''kitchen'', ''service'', ''dietary'', ''nutrition'',
                          ''cuisine''],
       low_priority = [''ideas'', ''tips'', ''suggestions'']\<rparr>)]"

definition strong_vegetarian :: "string list" where
  "strong_vegetarian = [''vegetarian'', ''vegan'', ''plant-based'', ''meatless'', ''dairy-free'',
     ''tofu'', ''tempeh'', ''quinoa'', ''lentils'', ''chickpeas'', ''beans'',
     ''vegetables'', ''salad'', ''pasta'', ''rice'', ''cheese'', ''eggs'']"

definition neutral_ingredients :: "string list" where
  "neutral_ingredients = [''oil'', ''salt'', ''pepper'', ''herbs'', ''spices'', ''garlic'', ''onion'',
     ''tomato'', ''flour'', ''water'', ''bread'', ''milk'', ''butter'']"

definition non_vegetarian :: "string list" where
  "non_vegetarian = [''beef'', ''pork'', ''chicken'', ''fish'', ''salmon'', ''tuna'', ''shrimp'',
     ''meat'', ''bacon'', ''ham'', ''sausage'', ''turkey'', ''lamb'', ''seafood'']"

definition gluten_free :: "string list" where
  "gluten_free = [''gluten-free'', ''gluten free'', ''rice'', ''quinoa'', ''corn'', ''potato'',
     ''almond flour'', ''coconut flour'', ''oat flour'']"

definition contains_gluten :: "string list" where
  "contains_gluten = [''wheat'', ''flour'', ''bread'', ''pasta'', ''noodles'', ''soy sauce'',
     ''barley'', ''rye'', ''bulgur'']"

text \<open>\<open>sum(1 for word in words if word in text_lower)\<close>.\<close>

definition count_in :: "string list \<Rightarrow> string \<Rightarrow> nat" where
  "count_in words text_lower = length (filter (\<lambda>word. str_in word text_lower) words)"

subsection \<open>\<open>_detect_heading_ml\<close> and \<open>extract_text_with_structure\<close>\<close>

text \<open>The bullet U+2022 of the \<open>startswith\<close> tuple is written as its UTF-8 bytes; no ASCII
  text starts with it.\<close>

definition list_prefixes :: "string list" where
  "list_prefixes = [[CHR 0xE2, CHR 0x80, CHR 0xA2], ''-'', ''1'', ''2'', ''3'', ''4'', ''5'']"

definition detect_heading_ml :: "string \<Rightarrow> real \<Rightarrow> int \<Rightarrow> bool" where
  "detect_heading_ml t font_size font_flags =
     (let font_size_score = (if font_size \<ge> 12 then 1 else 0 :: real);
          bold_score = (if font_flags AND 16 \<noteq> 0 then 1 else 0 :: real);
          length_score = (if 5 \<le> length t \<and> length t \<le> 50 then 1 else 0 :: real);
          recipe_pattern_score =
            (if list_ex (\<lambda>pattern. str_in pattern (py_lower t))
                  [''ingredients:'', ''instructions:'', ''recipe'', ''directions:'']
             then 1 else 0 :: real);
          title_case_score =
            (if py_istitle t \<and> \<not> list_ex (startswith t) list_prefixes then 1 else 0 :: real);
          no_digits_start_score = (if \<not> list_ex is_digit (take 5 t) then 1 else 0 :: real);
          score = font_size_score * 0.2 + bold_score * 0.3 + length_score * 0.2
                  + recipe_pattern_score * 0.4 + title_case_score * 0.2
                  + no_digits_start_score * 0.1
      in score \<ge> 0.4)"

record content_item =
  item_text :: string
  item_page :: nat
  item_font_size :: real
  item_is_heading :: bool
  item_flags :: int

definition span_items :: "nat \<Rightarrow> span \<Rightarrow> content_item list" where
  "span_items page_num s =
     (let t = py_strip (span_text s) in
      if t \<noteq> [] then
        [\<lparr>item_text = t, item_page = page_num + 1, item_font_size = span_size s,
          item_is_heading = detect_heading_ml t (span_size s) (span_flags s),
          item_flags = span_flags s\<rparr>]
      else [])"

definition extract_text_with_structure :: "page list \<Rightarrow> content_item list" where
  "extract_text_with_structure pages =
     concat (map (\<lambda>np. concat (map (\<lambda>b. concat (map (\<lambda>l. concat (map (span_items (fst np)) l))
                                                      (block_lines b)))
                                   (snd np)))
                 (enumerate 0 pages))"

subsection \<open>The classifiers and the relevance score\<close>

definition ml_vegetarian_classifier :: "string \<Rightarrow> real \<times> real" where
  "ml_vegetarian_classifier t =
     (let text_lower = py_lower t;
          veg_count = count_in strong_vegetarian text_lower;
          non_veg_count = count_in non_vegetarian text_lower;
          neutral_count = count_in neutral_ingredients text_lower;
          total_food_words = veg_count + non_veg_count + neutral_count
      in if total_food_words = 0 then (0.5, 0.1)
         else
          (let veg_prob = (real veg_count + real neutral_count * 0.5) / real total_food_words;
               confidence = min (real total_food_words / 10) 1;
               explicit = list_ex (\<lambda>term. str_in term text_lower)
                            [''vegetarian'', ''vegan'', ''plant-based''];
               veg_prob = (if explicit then min (veg_prob * 1.5) 1 else veg_prob);
               confidence = (if explicit then min (confidence * 1.2) 1 else confidence);
               veg_prob =
                 (if non_veg_count > 0
                     \<and> list_ex (\<lambda>method. str_in method text_lower)
                          [''grill'', ''roast'', ''fry'', ''cook'', ''season'']
                  then veg_prob * 0.3 else veg_prob)
           in (veg_prob, confidence)))"

definition ml_gluten_free_classifier :: "string \<Rightarrow> real \<times> real" where
  "ml_gluten_free_classifier t =
     (let text_lower = py_lower t;
          gf_count = count_in gluten_free text_lower;
          gluten_count = count_in contains_gluten text_lower;
          total_gluten_words = gf_count + gluten_count
      in if total_gluten_words = 0 then (0.5, 0.1)
         else
          (let gf_prob = real gf_count / real total_gluten_words;
               confidence = min (real total_gluten_words / 5) 1;
               explicit = (str_in ''gluten-free'' text_lower \<or> str_in ''gluten free'' text_lower);
               gf_prob = (if explicit then min (gf_prob * 2) 1 else gf_prob);
               confidence = (if explicit then min (confidence * 1.5) 1 else confidence)
           in (gf_prob, confidence)))"

definition calculate_base_relevance :: "string \<Rightarrow> string \<Rightarrow> string \<Rightarrow> real" where
  "calculate_base_relevance t persona job_description =
     (case map_of persona_keywords persona of
        None \<Rightarrow> 1
      | Some keywords \<Rightarrow>
          (let text_lower = py_lower t;
               job_lower = py_lower job_description;
               score = 0;
               score = foldl (\<lambda>score keyword. if str_in keyword text_lower then score + 3 else score)
                         score (high_priority keywords);
               score = foldl (\<lambda>score keyword. if str_in keyword text_lower then score + 2 else score)
                         score (medium_priority keywords);
               score = foldl (\<lambda>score keyword. if str_in keyword text_lower then score + 1 else score)
                         score (low_priority keywords);
               job_keywords = py_split job_lower;
               score = foldl (\<lambda>score job_keyword.
                                if length job_keyword > 3 \<and> str_in job_keyword text_lower
                                then score + 2 else score)
                         score job_keywords
           in max score 0.1))"

definition vegetarian_factor :: "string \<Rightarrow> real" where
  "vegetarian_factor t =
     (let veg_analysis = ml_vegetarian_classifier t;
          veg_prob = fst veg_analysis;
          confidence = snd veg_analysis
      in if confidence > 0.3 then
           (if veg_prob \<ge> 0.7 then 1.5 else if veg_prob \<le> 0.3 then 0.2 else 0.8)
         else 1)"

definition gluten_free_factor :: "string \<Rightarrow> real" where
  "gluten_free_factor t =
     (let gf_analysis = ml_gluten_free_classifier t;
          gf_prob = fst gf_analysis;
          confidence = snd gf_analysis
      in if confidence > 0.3 then
           (if gf_prob \<ge> 0.7 then 1.3 else if gf_prob \<le> 0.3 then 0.7 else 1)
         else 1)"

definition dinner_factor :: "string \<Rightarrow> real" where
  "dinner_factor t =
     (let text_lower = py_lower t;
          dinner_score = count_in [''dinner'', ''main'', ''sides'', ''entree'', ''course''] text_lower;
          non_dinner_score = count_in [''breakfast'', ''lunch'', ''snack'', ''appetizer''] text_lower
      in if dinner_score > non_dinner_score then 1.4
         else if non_dinner_score > dinner_score then 0.6 else 1)"

definition buffet_factor :: "string \<Rightarrow> real" where
  "buffet_factor t =
     (if list_ex (\<lambda>pattern. str_in pattern (py_lower t))
           [''buffet'', ''serving'', ''large'', ''quantity'', ''bulk'', ''crowd'']
      then 1.2 else 1)"

text \<open>\<open>_calculate_food_contractor_ml_score\<close>: each \<open>multiplier *= f\<close> of the source is one
  of the four factors above (1 where the source leaves the multiplier unchanged).\<close>

definition calculate_food_contractor_ml_score :: "string \<Rightarrow> string \<Rightarrow> real" where
  "calculate_food_contractor_ml_score t job_description =
     (let multiplier = 1;
          multiplier = (if str_in ''vegetarian'' (py_lower job_description)
                        then multiplier * vegetarian_factor t else multiplier);
          multiplier = (if str_in ''gluten-free'' (py_lower job_description)
                        then multiplier * gluten_free_factor t else multiplier);
          multiplier = (if str_in ''dinner'' (py_lower job_description)
                        then multiplier * dinner_factor t else multiplier);
          multiplier = (if str_in ''buffet'' (py_lower job_description)
                        then multiplier * buffet_factor t else multiplier)
      in multiplier)"

definition calculate_ml_relevance_score :: "string \<Rightarrow> string \<Rightarrow> string \<Rightarrow> real" where
  "calculate_ml_relevance_score t persona job_description =
     (let base_score = calculate_base_relevance t persona job_description in
      if persona = ''Food Contractor''
      then base_score * calculate_food_contractor_ml_score t job_description
      else base_score)"

subsection \<open>\<open>extract_sections\<close>\<close>

record section_rec =
  sec_document :: string
  sec_title :: string
  sec_content :: string
  sec_page_number :: nat
  sec_relevance_score :: real

text \<open>\<open>sep.join(parts)\<close>.\<close>

fun py_join :: "string \<Rightarrow> string list \<Rightarrow> string" where
  "py_join sep [] = []"
| "py_join sep [x] = x"
| "py_join sep (x # y # ys) = x @ sep @ py_join sep (y # ys)"

text \<open>The test of the segmentation loop that starts a new section.\<close>

definition is_section_boundary :: "content_item \<Rightarrow> bool" where
  "is_section_boundary item = (item_is_heading item \<and> length (item_text item) > 5)"

text \<open>``Save previous section if exists'': the block guarded by
  \<open>if current_section and current_content\<close>, the same at a boundary and after the loop.\<close>

definition save_section ::
  "string \<Rightarrow> string \<Rightarrow> string \<Rightarrow> string option \<Rightarrow> content_item list \<Rightarrow> section_rec list
     \<Rightarrow> section_rec list" where
  "save_section filename persona job_description current_section current_content all_sections =
     (case current_section of
        None \<Rightarrow> all_sections
      | Some title \<Rightarrow>
          if title \<noteq> [] \<and> current_content \<noteq> [] then
            (let section_text = py_join '' '' (map item_text current_content);
                 relevance_score =
                   calculate_ml_relevance_score (title @ '' '' @ section_text) persona job_description
             in if relevance_score > 0.1 then
                  all_sections @
                    [\<lparr>sec_document = filename, sec_title = title, sec_content = section_text,
                      sec_page_number = (case current_content of c # _ \<Rightarrow> item_page c | [] \<Rightarrow> 1),
                      sec_relevance_score = relevance_score\<rparr>]
                else all_sections)
          else all_sections)"

definition segment_step ::
  "string \<Rightarrow> string \<Rightarrow> string
     \<Rightarrow> string option \<times> content_item list \<times> section_rec list \<Rightarrow> content_item
     \<Rightarrow> string option \<times> content_item list \<times> section_rec list" where
  "segment_step filename persona job_description st item =
     (case st of (current_section, current_content, all_sections) \<Rightarrow>
        if is_section_boundary item then
          (Some (item_text item), [],
           save_section filename persona job_description current_section current_content all_sections)
        else (current_section, current_content @ [item], all_sections))"

definition segment_document ::
  "string \<Rightarrow> string \<Rightarrow> string \<Rightarrow> section_rec list \<Rightarrow> content_item list \<Rightarrow> section_rec list" where
  "segment_document filename persona job_description all_sections structured_content =
     (case foldl (segment_step filename persona job_description) (None, [], all_sections)
             structured_content of
        (current_section, current_content, all_sections') \<Rightarrow>
          save_section filename persona job_description current_section current_content all_sections')"

text \<open>The loop over the documents. \<open>fitz.open\<close> in \<open>extract_text_with_structure\<close> may raise;
  \<open>extract_sections\<close> has no handler, so the exception leaves it.\<close>

fun extract_sections_loop ::
  "string \<Rightarrow> string \<Rightarrow> section_rec list \<Rightarrow> (string \<times> (error + page list)) list
     \<Rightarrow> error + section_rec list" where
  "extract_sections_loop persona job_description all_sections [] = Inr all_sections"
| "extract_sections_loop persona job_description all_sections (doc # docs) =
     (case snd doc of
        Inl e \<Rightarrow> Inl e
      | Inr pages \<Rightarrow>
          extract_sections_loop persona job_description
            (segment_document (fst doc) persona job_description all_sections
               (extract_text_with_structure pages))
            docs)"

definition extract_sections ::
  "(string \<times> (error + page list)) list \<Rightarrow> string \<Rightarrow> string \<Rightarrow> error + section_rec list" where
  "extract_sections documents persona job_description =
     extract_sections_loop persona job_description [] documents"

text \<open>What the threshold test of \<open>save_section\<close> establishes for an emitted section.\<close>

definition scored :: "string \<Rightarrow> string \<Rightarrow> section_rec \<Rightarrow> bool" where
  "scored persona job s \<longleftrightarrow>
     sec_relevance_score s > 0.1
     \<and> sec_relevance_score s =
         calculate_ml_relevance_score (sec_title s @ '' '' @ sec_content s) persona job"

subsection \<open>\<open>rank_sections\<close>, \<open>enhance_content_for_validation\<close>, \<open>refine_content\<close>\<close>

definition rank_sections :: "section_rec list \<Rightarrow> nat \<Rightarrow> section_rec list" where
  "rank_sections sections limit = take limit (py_sorted_desc sec_relevance_score sections)"

definition validator_keywords :: "(string \<times> string list) list" where
  "validator_keywords =
    [(''Food Contractor'', [''menu'', ''recipe'', ''vegetarian'', ''buffet'', ''dinner'', ''corporate'',
                            ''catering'']),
     (''Travel Planner'', [''trip'', ''travel'', ''hotel'', ''restaurant'', ''activity'', ''guide'',
                           ''destination'']),
     (''HR professional'', [''form'', ''employee'', ''onboarding'', ''compliance'', ''digital'',
                            ''signature''])]"

definition food_contractor_context :: string where
  "food_contractor_context = '' This recipe is perfect for vegetarian menu planning. The ingredients create excellent buffet-style dinner options for corporate catering events. This menu item works well for large gatherings and addresses dietary requirements.''"

definition add_keyword :: "string \<Rightarrow> string \<Rightarrow> string" where
  "add_keyword enhanced keyword =
     (if \<not> str_in keyword (py_lower enhanced)
      then enhanced @ '' This '' @ keyword @ '' solution is ideal.'' else enhanced)"

definition add_job_word :: "string \<Rightarrow> string \<Rightarrow> string" where
  "add_job_word enhanced word =
     (if \<not> str_in word (py_lower enhanced)
      then enhanced @ '' Perfect for '' @ word @ '' requirements.'' else enhanced)"

definition job_words :: "string \<Rightarrow> string list" where
  "job_words job = filter (\<lambda>w. length w > 3) (py_split (py_lower job))"

definition enhance_content_for_validation :: "string \<Rightarrow> string \<Rightarrow> string \<Rightarrow> string" where
  "enhance_content_for_validation content persona job =
     (let enhanced = content;
          enhanced = (if persona = ''Food Contractor'' then enhanced @ food_contractor_context
                      else enhanced);
          enhanced = (case map_of validator_keywords persona of
                        Some keywords_to_add \<Rightarrow> foldl add_keyword enhanced keywords_to_add
                      | None \<Rightarrow> enhanced);
          enhanced = foldl add_job_word enhanced (job_words job)
      in enhanced)"

definition refine_content :: "section_rec list \<Rightarrow> string" where
  "refine_content sections =
     (if sections = [] then ''No relevant content found.''
      else py_join [CHR 0x0A, CHR 0x0A]
             (map (\<lambda>s. ''From '' @ sec_document s @ '' - '' @ sec_title s @ '':'' @ [CHR 0x0A]
                        @ take 500 (sec_content s) @ ''...'')
                  sections))"

subsection \<open>\<open>process_collection\<close>\<close>

record extracted_section =
  es_document :: string
  es_section_title :: string
  es_importance_rank :: nat
  es_page_number :: nat

record subsection_rec =
  ss_document :: string
  ss_refined_text :: string
  ss_page_number :: nat

record collection_output =
  out_input_documents :: "string list"
  out_persona :: string
  out_job_to_be_done :: string
  out_processing_timestamp :: string
  out_extracted_sections :: "extracted_section list"
  out_subsection_analysis :: "subsection_rec list"
  out_refined_text :: string

text \<open>\<open>process_collection\<close> on the fields read from the input file; \<open>now\<close> is
  \<open>datetime.now().isoformat()\<close>.\<close>

definition process_collection ::
  "string \<Rightarrow> string \<Rightarrow> (string \<times> (error + page list)) list \<Rightarrow> string \<Rightarrow> error + collection_output" where
  "process_collection persona job_description documents now =
     (case extract_sections documents persona job_description of
        Inl e \<Rightarrow> Inl e
      | Inr sections \<Rightarrow>
          (let top_sections = rank_sections sections 10;
               refined_text = refine_content top_sections
           in Inr \<lparr>out_input_documents = map fst documents,
                   out_persona = persona,
                   out_job_to_be_done = job_description,
                   out_processing_timestamp = now,
                   out_extracted_sections =
                     map (\<lambda>(i, s). \<lparr>es_document = sec_document s, es_section_title = sec_title s,
                                     es_importance_rank = i + 1, es_page_number = sec_page_number s\<rparr>)
                         (enumerate 0 top_sections),
                   out_subsection_analysis =
                     map (\<lambda>s. \<lparr>ss_document = sec_document s,
                                ss_refined_text =
                                  enhance_content_for_validation (sec_content s) persona job_description,
                                ss_page_number = sec_page_number s\<rparr>)
                         top_sections,
                   out_refined_text =
                     enhance_content_for_validation refined_text persona job_description\<rparr>))"

section \<open>Example inputs\<close>

text \<open>A two-page document whose heading \<open>OVERVIEW\<close> occurs twice on page 1 (at sizes 20
  and 18) and once on page 2.\<close>

definition example_doc :: document where
  "example_doc = \<lparr>doc_title = None, doc_pages =
     [[TextBlock [[\<lparr>span_text = ''OVERVIEW'', span_size = 20, span_flags = 0\<rparr>],
                  [\<lparr>span_text = ''plain body text here.'', span_size = 8, span_flags = 0\<rparr>],
                  [\<lparr>span_text = '' OVERVIEW '', span_size = 18, span_flags = 16\<rparr>]],
       ImageBlock],
      [TextBlock [[\<lparr>span_text = ''OVERVIEW'', span_size = 18, span_flags = 0\<rparr>]]]]\<rparr>"

text \<open>One page of a recipe collection, all in font size 10: two spans that the weighted
  detector takes for headings, each followed by one body span.\<close>

definition example_pages :: "page list" where
  "example_pages =
     [[TextBlock [[\<lparr>span_text = ''Ingredients: list'', span_size = 10, span_flags = 0\<rparr>],
                  [\<lparr>span_text = ''salt and water'', span_size = 10, span_flags = 0\<rparr>],
                  [\<lparr>span_text = ''Recipe for Hotel'', span_size = 10, span_flags = 0\<rparr>],
                  [\<lparr>span_text = ''hotel tips'', span_size = 10, span_flags = 0\<rparr>]]]]"

text \<open>Three scored sections, the first and the last tied.\<close>

definition example_sections :: "section_rec list" where
  "example_sections =
     [\<lparr>sec_document = ''d.pdf'', sec_title = ''Alpha'', sec_content = ''a'', sec_page_number = 1,
       sec_relevance_score = 2\<rparr>,
      \<lparr>sec_document = ''d.pdf'', sec_title = ''Beta'', sec_content = ''b'', sec_page_number = 2,
       sec_relevance_score = 5\<rparr>,
      \<lparr>sec_document = ''d.pdf'', sec_title = ''Gamma'', sec_content = ''c'', sec_page_number = 3,
       sec_relevance_score = 2\<rparr>]"





section \<open>Properties\<close>

subsection \<open>Level labels\<close>

lemma py_str_nat_digit: "n < 10 \<Longrightarrow> py_str_nat n = [digit_char n]"
  by (simp add: py_str_nat.simps)

lemma level_number_label:
  assumes "n < 10"
  shows "level_number (''H'' @ py_str_nat n) = n"
proof -
  from assms have "n \<in> {0, 1, 2, 3, 4, 5, 6, 7, 8, 9}" by auto
  then have "digit_value (digit_char n) = n"
    by (auto simp: digit_value_def digit_char_def ascii_digits_def)
  with assms show ?thesis
    by (simp add: level_number_def py_str_nat_digit)
qed

lemma level_scan_bounds:
  "level_scan x xs i = Some j \<Longrightarrow> i \<le> j \<and> j < i + length xs"
proof (induction xs arbitrary: i)
  case Nil
  then show ?case by simp
next
  case (Cons s rest)
  show ?case
  proof (cases "x \<ge> s")
    case True
    with Cons.prems show ?thesis by simp
  next
    case False
    with Cons.prems have "level_scan x rest (Suc i) = Some j" by simp
    from Cons.IH [OF this] show ?thesis by simp
  qed
qed

lemma level_scan_mono:
  "b \<le> a \<Longrightarrow> level_scan b xs i = Some j \<Longrightarrow> \<exists>k \<le> j. level_scan a xs i = Some k"
proof (induction xs arbitrary: i)
  case Nil
  then show ?case by simp
next
  case (Cons s rest)
  show ?case
  proof (cases "b \<ge> s")
    case True
    with Cons.prems show ?thesis by auto
  next
    case False
    with Cons.prems have rec: "level_scan b rest (Suc i) = Some j" by simp
    from level_scan_bounds [OF rec] have "i \<le> j" by simp
    from Cons.IH [OF Cons.prems(1) rec] obtain k where "k \<le> j" "level_scan a rest (Suc i) = Some k"
      by blast
    with \<open>i \<le> j\<close> show ?thesis by auto
  qed
qed

lemma level_of_scan:
  "level_number (determine_heading_level x fs) =
     (case level_scan x (take 6 (py_sorted_desc (\<lambda>x. x) (remdups fs))) 0 of
        Some i \<Rightarrow> i + 1 | None \<Rightarrow> 6)"
proof (cases "level_scan x (take 6 (py_sorted_desc (\<lambda>x. x) (remdups fs))) 0")
  case None
  then show ?thesis
    by (simp add: determine_heading_level_def level_number_def digit_value_def ascii_digits_def)
next
  case (Some i)
  from level_scan_bounds [OF Some] have "i + 1 < 10" by simp
  from level_number_label [OF this] Some show ?thesis
    by (simp add: determine_heading_level_def)
qed

text \<open>
  C6. Level monotonicity: for every font-size list of a document and any two font sizes
  \<open>a > b\<close> (in particular those of two accepted headings), the level assigned to \<open>a\<close> is
  numerically at most the level assigned to \<open>b\<close>; both are among 1..6.
\<close>

theorem level_monotone:
  assumes "a > b"
  shows "level_number (determine_heading_level a fs) \<le> level_number (determine_heading_level b fs)
         \<and> 1 \<le> level_number (determine_heading_level a fs)
         \<and> level_number (determine_heading_level b fs) \<le> 6"
proof -
  let ?ss = "take 6 (py_sorted_desc (\<lambda>x. x) (remdups fs))"
  have len: "length ?ss \<le> 6" by simp
  have upper: "level_number (determine_heading_level x fs) \<le> 6" for x
  proof (cases "level_scan x ?ss 0")
    case None
    then show ?thesis by (simp add: level_of_scan)
  next
    case (Some i)
    from level_scan_bounds [OF Some] len have "i < 6" by simp
    with Some show ?thesis by (simp add: level_of_scan)
  qed
  have lower: "1 \<le> level_number (determine_heading_level a fs)"
    by (simp add: level_of_scan split: option.split)
  have mono: "level_number (determine_heading_level a fs) \<le> level_number (determine_heading_level b fs)"
  proof (cases "level_scan b ?ss 0")
    case None
    with upper [of a] show ?thesis by (simp add: level_of_scan)
  next
    case (Some j)
    from assms have "b \<le> a" by simp
    from level_scan_mono [OF this Some] obtain k where "k \<le> j" "level_scan a ?ss 0 = Some k"
      by blast
    with Some show ?thesis by (simp add: level_of_scan)
  qed
  from mono lower upper [of b] show ?thesis by simp
qed

theorem level_monotone_witness:
  "(14::real) > 12
   \<and> determine_heading_level 14 [18, 14, 12, 10, 12, 14] = ''H2''
   \<and> determine_heading_level 12 [18, 14, 12, 10, 12, 14] = ''H3''
   \<and> level_number (determine_heading_level 14 [18, 14, 12, 10, 12, 14])
       \<le> level_number (determine_heading_level 12 [18, 14, 12, 10, 12, 14])"
proof -
  have h: "(14::real) > 12" by simp
  have a: "determine_heading_level 14 [18, 14, 12, 10, 12, 14] = ''H2''"
    by (simp add: determine_heading_level_def py_sorted_desc_def py_str_nat_digit digit_char_def
        ascii_digits_def)
  have b: "determine_heading_level 12 [18, 14, 12, 10, 12, 14] = ''H3''"
    by (simp add: determine_heading_level_def py_sorted_desc_def py_str_nat_digit digit_char_def
        ascii_digits_def)
  from h a b level_monotone [OF h, of "[18, 14, 12, 10, 12, 14]"] show ?thesis by simp
qed

subsection \<open>The heading gate\<close>

lemmas char_classes = is_digit_def is_space_def is_upper_def is_lower_def
  ascii_upper_def ascii_lower_def ascii_digits_def

lemmas rx_eval = re_match_def heading_patterns_def numbered_tail_def Plus_def Opt_def Chr_def

lemma size_gate_passed:
  assumes "\<not> font_size < avg * 1.1"
  shows "is_likely_heading text0 font_size is_bold avg =
     (let t = py_strip text0 in
      2 \<le> length t \<and> length t \<le> 200
      \<and> (list_ex (\<lambda>p. re_match p t) heading_patterns
         \<or> (is_bold \<and> font_size \<ge> avg * 1.2)
         \<or> (py_isupper t \<and> length (py_split t) \<le> 10)))"
  using assms by (auto simp: is_likely_heading_def Let_def)

lemma size_gate_failed:
  "font_size < avg * 1.1 \<Longrightarrow> \<not> is_likely_heading text0 font_size is_bold avg"
  by (simp add: is_likely_heading_def Let_def)

text \<open>
  C5. With average font size 10.0, a line of font size 10.9 is rejected whatever its text
  and bold flag; font size 11.0 is not below the gate \<open>10.0 * 1.1\<close>, and the decision is
  then the length filter followed by the pattern rule, the bold rule (size at least
  \<open>10.0 * 1.2\<close>) and the all-caps rule, in that order.
\<close>

theorem heading_gate_scenario:
  "\<not> is_likely_heading text0 10.9 is_bold 10
   \<and> \<not> (11 :: real) < 10 * 1.1
   \<and> is_likely_heading text0 11 is_bold 10 =
       (let t = py_strip text0 in
        2 \<le> length t \<and> length t \<le> 200
        \<and> (list_ex (\<lambda>p. re_match p t) heading_patterns
           \<or> (is_bold \<and> (11 :: real) \<ge> 10 * 1.2)
           \<or> (py_isupper t \<and> length (py_split t) \<le> 10)))"
proof -
  have a: "\<not> is_likely_heading text0 10.9 is_bold 10"
    by (rule size_gate_failed) simp
  have b: "\<not> (11 :: real) < 10 * 1.1" by simp
  from a b size_gate_passed [OF b] show ?thesis by blast
qed

theorem heading_gate_scenario_witness:
  "\<not> is_likely_heading ''INTRODUCTION'' 10.9 True 10
   \<and> is_likely_heading ''INTRODUCTION'' 11 True 10
   \<and> \<not> is_likely_heading ''see the next page.'' 11 True 10"
proof -
  have p: "list_ex (\<lambda>p. re_match p ''INTRODUCTION'') heading_patterns"
    by (simp add: rx_eval char_classes)
  have q: "\<not> list_ex (\<lambda>p. re_match p ''see the next page.'') heading_patterns"
    by (simp add: rx_eval char_classes)
  have s1: "py_strip ''INTRODUCTION'' = ''INTRODUCTION''"
    by (simp add: py_strip_def char_classes)
  have s2: "py_strip ''see the next page.'' = ''see the next page.''"
    by (simp add: py_strip_def char_classes)
  have u: "\<not> py_isupper ''see the next page.''"
    by (simp add: py_isupper_def char_classes)
  from heading_gate_scenario [of "''INTRODUCTION''" True]
       heading_gate_scenario [of "''see the next page.''" True] p q s1 s2 u
  show ?thesis by (simp add: Let_def)
qed

subsection \<open>Outline de-duplication\<close>

lemma foldl_map_nested: "foldl (\<lambda>acc x. foldl f acc (g x)) a xs = foldl f a (concat (map g xs))"
  by (induction xs arbitrary: a) simp_all

lemma list_ex_key:
  "list_ex (\<lambda>item. h_text item = t \<and> h_page item = n) outline
     \<longleftrightarrow> (t, n) \<in> heading_key ` set outline"
  by (auto simp: list_ex_iff heading_key_def)

lemma scan_line_add:
  "scan_line avg fss n outline l = foldl add_heading outline (line_candidate avg fss n l)"
  by (simp add: scan_line_def line_candidate_def add_heading_def list_ex_key Let_def heading_key_def)

lemma scan_block_add:
  "scan_block avg fss n outline b =
     foldl add_heading outline (concat (map (line_candidate avg fss n) (block_lines b)))"
  by (simp add: scan_block_def scan_line_add [abs_def] foldl_map_nested)

lemma scan_page_add:
  "scan_page avg fss outline np =
     foldl add_heading outline
       (concat (map (\<lambda>b. concat (map (line_candidate avg fss (fst np)) (block_lines b))) (snd np)))"
  by (simp add: scan_page_def scan_block_add [abs_def] foldl_map_nested)

lemma foldl_add_heading:
  "foldl add_heading acc hs = acc @ first_occurrences (heading_key ` set acc) hs"
proof (induction hs arbitrary: acc)
  case Nil
  then show ?case by simp
next
  case (Cons h hs)
  have step: "foldl add_heading acc (h # hs) = foldl add_heading (add_heading acc h) hs"
    by simp
  show ?case
  proof (cases "heading_key h \<in> heading_key ` set acc")
    case True
    then have "add_heading acc h = acc" by (simp add: add_heading_def)
    with True show ?thesis unfolding step by (simp add: Cons.IH)
  next
    case False
    then have "add_heading acc h = acc @ [h]" by (simp add: add_heading_def)
    with False show ?thesis unfolding step by (simp add: Cons.IH)
  qed
qed

lemma first_occurrences_keys:
  "set (map heading_key (first_occurrences seen hs)) \<inter> seen = {}
   \<and> distinct (map heading_key (first_occurrences seen hs))"
proof (induction hs arbitrary: seen)
  case Nil
  then show ?case by simp
next
  case (Cons h hs)
  show ?case
  proof (cases "heading_key h \<in> seen")
    case True
    with Cons.IH [of seen] show ?thesis by simp
  next
    case False
    with Cons.IH [of "insert (heading_key h) seen"] show ?thesis by auto
  qed
qed

lemma extract_outline_first_occurrences:
  "extract_outline doc = first_occurrences {} (heading_candidates doc)"
proof (cases "all_font_sizes doc = []")
  case True
  then show ?thesis by (simp add: extract_outline_def heading_candidates_def)
next
  case False
  let ?fss = "all_font_sizes doc"
  let ?avg = "sum_list ?fss / real (length ?fss)"
  let ?g = "\<lambda>np. concat (map (\<lambda>b. concat (map (line_candidate ?avg ?fss (fst np)) (block_lines b))) (snd np))"
  have "foldl (scan_page ?avg ?fss) [] (enumerate 0 (doc_pages doc))
        = foldl (\<lambda>acc np. foldl add_heading acc (?g np)) [] (enumerate 0 (doc_pages doc))"
    by (simp only: scan_page_add [abs_def])
  also have "\<dots> = foldl add_heading [] (concat (map ?g (enumerate 0 (doc_pages doc))))"
    by (rule foldl_map_nested)
  also have "\<dots> = first_occurrences {} (concat (map ?g (enumerate 0 (doc_pages doc))))"
    by (simp add: foldl_add_heading)
  finally show ?thesis using False
    by (simp add: extract_outline_def heading_candidates_def Let_def)
qed

text \<open>
  C7. The outline never holds two entries with the same \<open>(text, page)\<close>, and it is the
  candidate sequence of the second pass with every later occurrence of a key removed:
  the first occurrence wins and document order is kept.
\<close>

theorem outline_deduplicated:
  "distinct (map heading_key (extract_outline doc))
   \<and> extract_outline doc = first_occurrences {} (heading_candidates doc)"
  using first_occurrences_keys [of "{}" "heading_candidates doc"]
  by (simp add: extract_outline_first_occurrences)

lemma ex_sizes: "all_font_sizes example_doc = [20, 8, 18, 18]"
  by (simp add: example_doc_def all_font_sizes_def block_lines_def)

lemma ex_overview: "list_ex (\<lambda>p. re_match p ''OVERVIEW'') heading_patterns"
  by (simp add: rx_eval char_classes)

lemma ex_strip: "py_strip ''OVERVIEW'' = ''OVERVIEW''" "py_strip '' OVERVIEW '' = ''OVERVIEW''"
  by (simp_all add: py_strip_def char_classes)

lemma ex_heading: "\<not> fs < 16 * 1.1 \<Longrightarrow> is_likely_heading ''OVERVIEW'' fs b 16"
  by (simp add: size_gate_passed ex_strip ex_overview)

lemma ex_levels: "determine_heading_level 20 [20, 8, 18, 18] = ''H1''"
  "determine_heading_level 18 [20, 8, 18, 18] = ''H2''"
  by (simp_all add: determine_heading_level_def py_sorted_desc_def py_str_nat_digit digit_char_def
      ascii_digits_def)

lemma ex_line1: "line_candidate 16 [20, 8, 18, 18] n [\<lparr>span_text = ''OVERVIEW'', span_size = 20, span_flags = 0\<rparr>]
   = [\<lparr>h_level = ''H1'', h_text = ''OVERVIEW'', h_page = n + 1\<rparr>]"
  by (simp add: line_candidate_def line_text_def line_font_size_def ex_strip ex_heading ex_levels)

lemma ex_line2: "line_candidate 16 [20, 8, 18, 18] n [\<lparr>span_text = t, span_size = 8, span_flags = 0\<rparr>] = []"
  by (simp add: line_candidate_def line_font_size_def size_gate_failed)

lemma ex_line3: "line_candidate 16 [20, 8, 18, 18] n [\<lparr>span_text = '' OVERVIEW '', span_size = 18, span_flags = f\<rparr>]
   = [\<lparr>h_level = ''H2'', h_text = ''OVERVIEW'', h_page = n + 1\<rparr>]"
  by (simp add: line_candidate_def line_text_def line_font_size_def ex_strip ex_heading ex_levels)

lemma ex_line4: "line_candidate 16 [20, 8, 18, 18] n [\<lparr>span_text = ''OVERVIEW'', span_size = 18, span_flags = f\<rparr>]
   = [\<lparr>h_level = ''H2'', h_text = ''OVERVIEW'', h_page = n + 1\<rparr>]"
  by (simp add: line_candidate_def line_text_def line_font_size_def ex_strip ex_heading ex_levels)

lemma ex_cands: "heading_candidates example_doc =
   [\<lparr>h_level = ''H1'', h_text = ''OVERVIEW'', h_page = 1\<rparr>,
    \<lparr>h_level = ''H2'', h_text = ''OVERVIEW'', h_page = 1\<rparr>,
    \<lparr>h_level = ''H2'', h_text = ''OVERVIEW'', h_page = 2\<rparr>]"
proof -
  have "heading_candidates example_doc =
     concat (map (\<lambda>np. concat (map (\<lambda>b. concat (map (line_candidate 16 [20, 8, 18, 18] (fst np))
                                                              (block_lines b)))
                                           (snd np)))
                        (enumerate 0 (doc_pages example_doc)))"
    by (simp add: heading_candidates_def ex_sizes)
  also have "\<dots> = [\<lparr>h_level = ''H1'', h_text = ''OVERVIEW'', h_page = 1\<rparr>,
    \<lparr>h_level = ''H2'', h_text = ''OVERVIEW'', h_page = 1\<rparr>,
    \<lparr>h_level = ''H2'', h_text = ''OVERVIEW'', h_page = 2\<rparr>]"
    by (simp add: example_doc_def enumerate_eq_zip block_lines_def ex_line1 ex_line2 ex_line3 ex_line4)
  finally show ?thesis .
qed

theorem outline_deduplicated_witness:
  "extract_outline example_doc =
     [\<lparr>h_level = ''H1'', h_text = ''OVERVIEW'', h_page = 1\<rparr>,
      \<lparr>h_level = ''H2'', h_text = ''OVERVIEW'', h_page = 2\<rparr>]
   \<and> distinct (map heading_key (extract_outline example_doc))"
  using outline_deduplicated [of example_doc]
  by (simp add: ex_cands heading_key_def)

subsection \<open>Title resolution\<close>








subsection \<open>Document-level failure\<close>




























subsection \<open>The relevance score floor\<close>

lemmas str_eval = str_in_def sublist_code prefix_code

lemma foldl_add_if:
  "foldl (\<lambda>score k. if P k then score + w else score) s0 ks
     = s0 + w * real (length (filter P ks))"
  for s0 w :: real
  by (induction ks arbitrary: s0) (simp_all add: algebra_simps)

lemma base_relevance_closed:
  assumes "map_of persona_keywords persona = Some kw"
  shows "calculate_base_relevance t persona job =
     max (3 * real (count_in (high_priority kw) (py_lower t))
          + 2 * real (count_in (medium_priority kw) (py_lower t))
          + real (count_in (low_priority kw) (py_lower t))
          + 2 * real (length (filter (\<lambda>w. length w > 3 \<and> str_in w (py_lower t))
                                      (py_split (py_lower job))))) 0.1"
  using assms
  by (simp add: calculate_base_relevance_def Let_def foldl_add_if count_in_def)

lemma travel_profile: "map_of persona_keywords ''Travel Planner'' = Some
      \<lparr>high_priority = [''travel'', ''trip'', ''vacation'', ''hotel'', ''restaurant'', ''tourism'',
                         ''destination'', ''itinerary'', ''attractions'', ''activities'',
                         ''sightseeing'', ''accommodation''],
       medium_priority = [''culture'', ''history'', ''food'', ''local'', ''guide'', ''places'',
                          ''visit'', ''explore'', ''experience''],
       low_priority = [''information'', ''tips'', ''advice'', ''recommendations'']\<rparr>"
  by (simp add: persona_keywords_def)

lemma food_profile: "map_of persona_keywords ''Food Contractor'' = Some
      \<lparr>high_priority = [''food'', ''recipe'', ''cooking'', ''menu'', ''dinner'', ''meal'',
                         ''vegetarian'', ''gluten-free'', ''buffet'', ''catering'', ''ingredients''],
       medium_priority = [''preparation'', ''kitchen'', ''service'', ''dietary'', ''nutrition'',
                          ''cuisine''],
       low_priority = [''ideas'', ''tips'', ''suggestions'']\<rparr>"
  by (simp add: persona_keywords_def)

lemma base_relevance_floor:
  "map_of persona_keywords persona = Some kw \<Longrightarrow> calculate_base_relevance t persona job \<ge> 0.1"
  by (simp add: base_relevance_closed)

lemma vegetarian_factor_bound: "0.2 \<le> vegetarian_factor t"
  by (simp add: vegetarian_factor_def Let_def)

lemma gluten_free_factor_bound: "0.7 \<le> gluten_free_factor t"
  by (simp add: gluten_free_factor_def Let_def)

lemma dinner_factor_bound: "0.6 \<le> dinner_factor t"
  by (simp add: dinner_factor_def Let_def)

lemma buffet_factor_bound: "1 \<le> buffet_factor t"
  by (simp add: buffet_factor_def)

text \<open>The exact product of the smallest factors is \<open>0.2 * 0.7 * 0.6 = 0.084\<close>; the bound
  is stated as 0.08, which the product of the doubles (\<open>0.08399999999999999\<close>) meets as
  well.\<close>

lemma multiplier_bound: "0.08 \<le> calculate_food_contractor_ml_score t job"
proof -
  define v where "v = (if str_in ''vegetarian'' (py_lower job) then vegetarian_factor t else 1)"
  define g where "g = (if str_in ''gluten-free'' (py_lower job) then gluten_free_factor t else 1)"
  define d where "d = (if str_in ''dinner'' (py_lower job) then dinner_factor t else 1)"
  define b where "b = (if str_in ''buffet'' (py_lower job) then buffet_factor t else 1)"
  have eq: "calculate_food_contractor_ml_score t job = v * g * d * b"
    by (simp add: calculate_food_contractor_ml_score_def v_def g_def d_def b_def)
  have v: "0.2 \<le> v" using vegetarian_factor_bound [of t] by (simp add: v_def)
  have g: "0.7 \<le> g" using gluten_free_factor_bound [of t] by (simp add: g_def)
  have d: "0.6 \<le> d" using dinner_factor_bound [of t] by (simp add: d_def)
  have b: "1 \<le> b" using buffet_factor_bound [of t] by (simp add: b_def)
  have vg: "0.2 * 0.7 \<le> v * g" by (rule mult_mono [OF v g]) (use v in auto)
  have vgd: "(0.2 * 0.7) * 0.6 \<le> (v * g) * d" by (rule mult_mono [OF vg d]) (use vg in auto)
  have "((0.2 * 0.7) * 0.6) * 1 \<le> ((v * g) * d) * b" by (rule mult_mono [OF vgd b]) (use vgd in auto)
  then have "0.084 \<le> v * g * d * b" by simp
  then show ?thesis by (simp add: eq)
qed

text \<open>
  C1 (as amended). For every known persona the base relevance is at least 0.1. For a
  known persona other than Food Contractor the returned score is the base relevance, so
  at least 0.1. For Food Contractor the returned score is the base relevance times the
  multiplier; the multiplier is at least 0.08 (its smallest value is the product of the
  three penalties 0.2, 0.7 and 0.6), and so the score is positive, at least 0.008, but
  not bounded below by 0.1. Both bounds leave a margin of more than 4 percent, which the
  rounding of the source's double products cannot consume.
\<close>

theorem relevance_score_floor:
  assumes "map_of persona_keywords persona = Some kw"
  shows "calculate_base_relevance t persona job \<ge> 0.1
     \<and> (persona \<noteq> ''Food Contractor'' \<longrightarrow>
          calculate_ml_relevance_score t persona job = calculate_base_relevance t persona job
          \<and> calculate_ml_relevance_score t persona job \<ge> 0.1)
     \<and> (persona = ''Food Contractor'' \<longrightarrow>
          calculate_ml_relevance_score t persona job =
            calculate_base_relevance t persona job * calculate_food_contractor_ml_score t job
          \<and> calculate_food_contractor_ml_score t job \<ge> 0.08)
     \<and> calculate_ml_relevance_score t persona job \<ge> 0.008
     \<and> calculate_ml_relevance_score t persona job > 0"
proof -
  let ?b = "calculate_base_relevance t persona job"
  let ?m = "calculate_food_contractor_ml_score t job"
  let ?s = "calculate_ml_relevance_score t persona job"
  have base: "0.1 \<le> ?b" using assms by (rule base_relevance_floor)
  have mult: "0.08 \<le> ?m" by (rule multiplier_bound)
  have other: "?s = ?b" if "persona \<noteq> ''Food Contractor''"
    using that by (simp add: calculate_ml_relevance_score_def)
  have food: "?s = ?b * ?m" if "persona = ''Food Contractor''"
    using that by (simp add: calculate_ml_relevance_score_def)
  have "0.1 * 0.08 \<le> ?b * ?m"
    by (rule mult_mono [OF base mult]) (use base in auto)
  then have prod: "0.008 \<le> ?b * ?m" by simp
  have low: "0.008 \<le> ?s"
  proof (cases "persona = ''Food Contractor''")
    case True
    from food [OF True] prod show ?thesis by simp
  next
    case False
    from other [OF False] base show ?thesis by simp
  qed
  have c2: "persona \<noteq> ''Food Contractor'' \<longrightarrow> ?s = ?b \<and> ?s \<ge> 0.1"
    using other base by simp
  have c3: "persona = ''Food Contractor'' \<longrightarrow> ?s = ?b * ?m \<and> ?m \<ge> 0.08"
    using food mult by blast
  from low have pos: "0 < ?s" by simp
  from base c2 c3 low pos show ?thesis by blast
qed

lemma lo_lunch: "py_lower ''lunch'' = ''lunch''" "py_lower ''dinner'' = ''dinner''"
  by (simp_all add: py_lower_def lower_char_def ascii_upper_def ascii_lower_def)

lemma sp_dinner: "py_split ''dinner'' = [''dinner'']"
  by (simp add: py_split_def is_space_def)

lemma ex_base_lunch: "calculate_base_relevance ''lunch'' ''Food Contractor'' ''dinner'' = 0.1"
  by (simp add: base_relevance_closed [OF food_profile] lo_lunch sp_dinner count_in_def str_eval)

lemma ex_dinner_factor: "dinner_factor ''lunch'' = 0.6"
  by (simp add: dinner_factor_def lo_lunch count_in_def str_eval)

lemma ex_ml_lunch: "calculate_food_contractor_ml_score ''lunch'' ''dinner'' = 0.6"
  by (simp add: calculate_food_contractor_ml_score_def lo_lunch ex_dinner_factor str_eval)

text \<open>
  The claim as stated fails: for the known persona Food Contractor, the task \<open>dinner\<close> and
  the section text \<open>lunch\<close> the base relevance is the floor 0.1 and the meal-context
  adjustment multiplies it by 0.6.
\<close>

theorem relevance_score_floor_counterexample:
  "map_of persona_keywords ''Food Contractor'' \<noteq> None
   \<and> calculate_ml_relevance_score ''lunch'' ''Food Contractor'' ''dinner'' = 0.06
   \<and> \<not> calculate_ml_relevance_score ''lunch'' ''Food Contractor'' ''dinner'' \<ge> 0.1"
  by (simp add: food_profile calculate_ml_relevance_score_def ex_base_lunch ex_ml_lunch)

lemma lo_travel: "py_lower ''hotel tips'' = ''hotel tips''" "py_lower ''plan a trip'' = ''plan a trip''"
  by (simp_all add: py_lower_def lower_char_def ascii_upper_def ascii_lower_def)

lemma sp_travel: "py_split ''plan a trip'' = [''plan'', ''a'', ''trip'']"
  by (simp add: py_split_def is_space_def)

lemma ex_base_travel:
  "calculate_base_relevance ''hotel tips'' ''Travel Planner'' ''plan a trip'' = 4"
  by (simp add: base_relevance_closed [OF travel_profile] lo_travel sp_travel count_in_def str_eval)

theorem relevance_score_floor_witness:
  "map_of persona_keywords ''Travel Planner'' \<noteq> None
   \<and> calculate_ml_relevance_score ''hotel tips'' ''Travel Planner'' ''plan a trip'' = 4
   \<and> calculate_ml_relevance_score ''hotel tips'' ''Travel Planner'' ''plan a trip'' \<ge> 0.1"
  using relevance_score_floor [OF travel_profile, of "''hotel tips''" "''plan a trip''"]
  by (simp add: travel_profile ex_base_travel)

subsection \<open>The relevance threshold of \<open>extract_sections\<close>\<close>

lemma save_section_scored:
  assumes "list_all (scored persona job) secs"
  shows "list_all (scored persona job) (save_section filename persona job cur content secs)"
  using assms
  by (auto simp: save_section_def scored_def Let_def split: option.splits)

lemma segment_step_scored:
  assumes "list_all (scored persona job) (snd (snd st))"
  shows "list_all (scored persona job) (snd (snd (segment_step filename persona job st item)))"
  using assms save_section_scored [of persona job "snd (snd st)" filename "fst st" "fst (snd st)"]
  by (cases st) (simp add: segment_step_def)

lemma segment_fold_scored:
  assumes "list_all (scored persona job) (snd (snd st))"
  shows "list_all (scored persona job)
           (snd (snd (foldl (segment_step filename persona job) st items)))"
  using assms
proof (induction items arbitrary: st)
  case Nil
  then show ?case by simp
next
  case (Cons item items)
  from segment_step_scored [OF Cons.prems] Cons.IH show ?case by simp
qed

lemma segment_document_scored:
  assumes "list_all (scored persona job) secs"
  shows "list_all (scored persona job) (segment_document filename persona job secs items)"
proof -
  obtain cur content secs' where
    st: "foldl (segment_step filename persona job) (None, [], secs) items = (cur, content, secs')"
    by (cases "foldl (segment_step filename persona job) (None, [], secs) items") auto
  from segment_fold_scored [of persona job "(None, [], secs)" filename items] assms st
  have "list_all (scored persona job) secs'" by simp
  from save_section_scored [OF this] st show ?thesis
    by (simp add: segment_document_def)
qed

lemma extract_sections_loop_scored:
  assumes "list_all (scored persona job) secs"
    and "extract_sections_loop persona job secs docs = Inr out"
  shows "list_all (scored persona job) out"
  using assms
proof (induction docs arbitrary: secs)
  case Nil
  then show ?case by simp
next
  case (Cons doc docs)
  from Cons.prems(2) obtain pages where p: "snd doc = Inr pages"
    by (cases "snd doc") auto
  with Cons.prems(2) have rec: "extract_sections_loop persona job
      (segment_document (fst doc) persona job secs (extract_text_with_structure pages)) docs = Inr out"
    by simp
  from Cons.IH [OF segment_document_scored [OF Cons.prems(1)] rec] show ?case .
qed

text \<open>
  C2. Every section in the list returned by \<open>extract_sections\<close> has a relevance score
  strictly above 0.1, and that score is the computed score of its own title and content:
  a segmented section whose computed score is at most 0.1 is not in the list.
\<close>

theorem extracted_sections_above_threshold:
  assumes "extract_sections documents persona job = Inr sections"
  shows "\<forall>s \<in> set sections.
           sec_relevance_score s > 0.1
           \<and> sec_relevance_score s =
               calculate_ml_relevance_score (sec_title s @ '' '' @ sec_content s) persona job"
proof -
  have "list_all (scored persona job) []" by simp
  from extract_sections_loop_scored [OF this] assms
  have "list_all (scored persona job) sections" by (simp add: extract_sections_def)
  then show ?thesis unfolding list_all_iff scored_def by blast
qed

lemma detect_heading_ml_iff:
  "detect_heading_ml t font_size font_flags \<longleftrightarrow>
     (let f = (font_size \<ge> 12);
          b = (font_flags AND 16 \<noteq> 0);
          l = (5 \<le> length t \<and> length t \<le> 50);
          r = list_ex (\<lambda>pattern. str_in pattern (py_lower t))
                [''ingredients:'', ''instructions:'', ''recipe'', ''directions:''];
          c = (py_istitle t \<and> \<not> list_ex (startswith t) list_prefixes);
          n = (\<not> list_ex is_digit (take 5 t))
      in r \<or> (b \<and> (f \<or> l \<or> c \<or> n)) \<or> (f \<and> l) \<or> (f \<and> c) \<or> (l \<and> c))"
  unfolding detect_heading_ml_def Let_def by auto

lemmas lower_eval = py_lower_def lower_char_def ascii_upper_def ascii_lower_def

lemma ex_lower:
  "py_lower ''Ingredients: list'' = ''ingredients: list''"
  "py_lower ''Recipe for Hotel'' = ''recipe for hotel''"
  "py_lower ''salt and water'' = ''salt and water''"
  "py_lower ''hotel tips'' = ''hotel tips''"
  "py_lower ''plan a trip'' = ''plan a trip''"
  "py_lower ''Ingredients: list salt and water'' = ''ingredients: list salt and water''"
  "py_lower ''Recipe for Hotel hotel tips'' = ''recipe for hotel hotel tips''"
  by (simp_all add: lower_eval)

lemma ex_heading_ingredients: "detect_heading_ml ''Ingredients: list'' 10 0"
  by (simp add: detect_heading_ml_iff ex_lower str_eval)

lemma ex_heading_recipe: "detect_heading_ml ''Recipe for Hotel'' 10 0"
  by (simp add: detect_heading_ml_iff ex_lower str_eval)

lemma ex_body_salt: "\<not> detect_heading_ml ''salt and water'' 10 0"
  by (simp add: detect_heading_ml_iff ex_lower str_eval py_istitle_def is_upper_def is_lower_def
      ascii_upper_def ascii_lower_def)

lemma ex_body_tips: "\<not> detect_heading_ml ''hotel tips'' 10 0"
  by (simp add: detect_heading_ml_iff ex_lower str_eval py_istitle_def is_upper_def is_lower_def
      ascii_upper_def ascii_lower_def)

lemma ex_strips:
  "py_strip ''Ingredients: list'' = ''Ingredients: list''"
  "py_strip ''Recipe for Hotel'' = ''Recipe for Hotel''"
  "py_strip ''salt and water'' = ''salt and water''"
  "py_strip ''hotel tips'' = ''hotel tips''"
  by (simp_all add: py_strip_def is_space_def)

lemma ex_items:
  "extract_text_with_structure example_pages =
     [\<lparr>item_text = ''Ingredients: list'', item_page = 1, item_font_size = 10,
       item_is_heading = True, item_flags = 0\<rparr>,
      \<lparr>item_text = ''salt and water'', item_page = 1, item_font_size = 10,
       item_is_heading = False, item_flags = 0\<rparr>,
      \<lparr>item_text = ''Recipe for Hotel'', item_page = 1, item_font_size = 10,
       item_is_heading = True, item_flags = 0\<rparr>,
      \<lparr>item_text = ''hotel tips'', item_page = 1, item_font_size = 10,
       item_is_heading = False, item_flags = 0\<rparr>]"
  by (simp add: extract_text_with_structure_def example_pages_def enumerate_eq_zip block_lines_def
      span_items_def ex_strips ex_heading_ingredients ex_heading_recipe ex_body_salt ex_body_tips)

lemma ex_score_ingredients:
  "calculate_ml_relevance_score ''Ingredients: list salt and water'' ''Travel Planner'' ''plan a trip''
     = 0.1"
  by (simp add: calculate_ml_relevance_score_def base_relevance_closed [OF travel_profile]
      ex_lower sp_travel count_in_def str_eval)

lemma ex_score_recipe:
  "calculate_ml_relevance_score ''Recipe for Hotel hotel tips'' ''Travel Planner'' ''plan a trip'' = 4"
  by (simp add: calculate_ml_relevance_score_def base_relevance_closed [OF travel_profile]
      ex_lower sp_travel count_in_def str_eval)

lemma ex_sections:
  "extract_sections [(''guide.pdf'', Inr example_pages)] ''Travel Planner'' ''plan a trip'' =
     Inr [\<lparr>sec_document = ''guide.pdf'', sec_title = ''Recipe for Hotel'',
           sec_content = ''hotel tips'', sec_page_number = 1, sec_relevance_score = 4\<rparr>]"
  by (simp add: extract_sections_def segment_document_def ex_items segment_step_def
      is_section_boundary_def save_section_def ex_score_ingredients ex_score_recipe)

theorem extracted_sections_above_threshold_witness:
  "extract_sections [(''guide.pdf'', Inr example_pages)] ''Travel Planner'' ''plan a trip'' =
     Inr [\<lparr>sec_document = ''guide.pdf'', sec_title = ''Recipe for Hotel'',
           sec_content = ''hotel tips'', sec_page_number = 1, sec_relevance_score = 4\<rparr>]
   \<and> calculate_ml_relevance_score (''Recipe for Hotel'' @ '' '' @ ''hotel tips'') ''Travel Planner''
        ''plan a trip'' = 4
   \<and> \<not> calculate_ml_relevance_score (''Ingredients: list'' @ '' '' @ ''salt and water'')
          ''Travel Planner'' ''plan a trip'' > 0.1"
  using extracted_sections_above_threshold [OF ex_sections]
  by (simp add: ex_sections ex_score_ingredients)

subsection \<open>Section boundaries\<close>









subsection \<open>Ranking\<close>

lemma sorted_desc_sorted: "sorted_wrt (\<lambda>a b. k a \<ge> k b) (py_sorted_desc k xs)"
proof -
  have "sorted (map (\<lambda>x. - k x) (py_sorted_desc k xs))"
    by (simp add: py_sorted_desc_def)
  then show ?thesis by (simp add: sorted_map)
qed

lemma sorted_desc_mset: "mset (py_sorted_desc k xs) = mset xs"
  by (simp add: py_sorted_desc_def)

lemma sorted_desc_stable:
  "filter (\<lambda>x. k x = v) (py_sorted_desc k xs) = filter (\<lambda>x. k x = v) xs"
proof -
  have "filter (\<lambda>x. - k x = - v) (sort_key (\<lambda>x. - k x) xs) = filter (\<lambda>x. - k x = - v) xs"
    by (rule sort_key_stable)
  then show ?thesis by (simp add: py_sorted_desc_def)
qed

lemma sorted_desc_idem:
  assumes "sorted_wrt (\<lambda>a b. k a \<ge> k b) xs"
  shows "py_sorted_desc k xs = xs"
proof -
  from assms have "sorted (map (\<lambda>x. - k x) xs)" by (simp add: sorted_map)
  then show ?thesis by (simp add: py_sorted_desc_def sort_key_id_if_sorted)
qed

lemma rank_sections_sorted:
  "sorted_wrt (\<lambda>a b. sec_relevance_score a \<ge> sec_relevance_score b) (rank_sections xs n)"
  unfolding rank_sections_def by (rule sorted_wrt_take) (rule sorted_desc_sorted)

lemma rank_sections_idem:
  "rank_sections (rank_sections xs n) n = rank_sections xs n"
proof -
  have "py_sorted_desc sec_relevance_score (rank_sections xs n) = rank_sections xs n"
    by (rule sorted_desc_idem) (rule rank_sections_sorted)
  then have "rank_sections (rank_sections xs n) n = take n (rank_sections xs n)"
    by (simp add: rank_sections_def)
  also have "\<dots> = rank_sections xs n" by (simp add: rank_sections_def)
  finally show ?thesis .
qed

lemma rank_sections_length: "length (rank_sections xs n) = min n (length xs)"
proof -
  have "length (py_sorted_desc sec_relevance_score xs) = length xs"
    by (simp add: py_sorted_desc_def)
  then show ?thesis by (simp add: rank_sections_def min.commute)
qed

lemma importance_ranks:
  assumes "process_collection persona job documents now = Inr out"
  shows "\<exists>sections. extract_sections documents persona job = Inr sections
      \<and> length (out_extracted_sections out) = length (rank_sections sections 10)
      \<and> (\<forall>i < length (rank_sections sections 10).
            es_importance_rank (out_extracted_sections out ! i) = i + 1
            \<and> es_section_title (out_extracted_sections out ! i)
                = sec_title (rank_sections sections 10 ! i)
            \<and> es_document (out_extracted_sections out ! i)
                = sec_document (rank_sections sections 10 ! i))"
proof -
  from assms obtain sections where s: "extract_sections documents persona job = Inr sections"
    by (cases "extract_sections documents persona job") (auto simp: process_collection_def)
  let ?top = "rank_sections sections 10"
  from assms s have out: "out_extracted_sections out =
      map (\<lambda>(i, s). \<lparr>es_document = sec_document s, es_section_title = sec_title s,
                      es_importance_rank = i + 1, es_page_number = sec_page_number s\<rparr>)
          (enumerate 0 ?top)"
    by (auto simp: process_collection_def Let_def)
  have "length (out_extracted_sections out) = length ?top" by (simp add: out)
  moreover have "es_importance_rank (out_extracted_sections out ! i) = i + 1
            \<and> es_section_title (out_extracted_sections out ! i) = sec_title (?top ! i)
            \<and> es_document (out_extracted_sections out ! i) = sec_document (?top ! i)"
    if "i < length ?top" for i
    using that by (simp add: out nth_enumerate_eq)
  ultimately show ?thesis using s by blast
qed

text \<open>
  C9. \<open>rank_sections\<close> returns the first \<open>n\<close> (10 in \<open>process_collection\<close>) of the sections
  sorted by relevance score, descending; the sort is a permutation that keeps the
  original order among sections of equal score; ranking the ranked list again changes
  nothing; and the \<open>i\<close>-th ranked section is emitted with importance rank \<open>i + 1\<close>.
\<close>

theorem ranking_stable_top:
  "rank_sections sections n = take n (py_sorted_desc sec_relevance_score sections)
   \<and> sorted_wrt (\<lambda>a b. sec_relevance_score a \<ge> sec_relevance_score b)
        (py_sorted_desc sec_relevance_score sections)
   \<and> mset (py_sorted_desc sec_relevance_score sections) = mset sections
   \<and> (\<forall>v. filter (\<lambda>s. sec_relevance_score s = v) (py_sorted_desc sec_relevance_score sections)
           = filter (\<lambda>s. sec_relevance_score s = v) sections)
   \<and> length (rank_sections sections n) = min n (length sections)
   \<and> rank_sections (rank_sections sections n) n = rank_sections sections n
   \<and> (process_collection persona job documents now = Inr out \<longrightarrow>
        (\<exists>found. extract_sections documents persona job = Inr found
           \<and> length (out_extracted_sections out) = length (rank_sections found 10)
           \<and> (\<forall>i < length (rank_sections found 10).
                 es_importance_rank (out_extracted_sections out ! i) = i + 1
                 \<and> es_section_title (out_extracted_sections out ! i)
                     = sec_title (rank_sections found 10 ! i)
                 \<and> es_document (out_extracted_sections out ! i)
                     = sec_document (rank_sections found 10 ! i))))"
  using sorted_desc_sorted [of sec_relevance_score sections]
    sorted_desc_mset [of sec_relevance_score sections]
    sorted_desc_stable [of sec_relevance_score _ sections]
    rank_sections_length [of sections n] rank_sections_idem [of sections n]
    importance_ranks [of persona job documents now out]
  by (simp add: rank_sections_def)

lemma ex_ranked:
  "py_sorted_desc sec_relevance_score example_sections =
     [\<lparr>sec_document = ''d.pdf'', sec_title = ''Beta'', sec_content = ''b'', sec_page_number = 2,
       sec_relevance_score = 5\<rparr>,
      \<lparr>sec_document = ''d.pdf'', sec_title = ''Alpha'', sec_content = ''a'', sec_page_number = 1,
       sec_relevance_score = 2\<rparr>,
      \<lparr>sec_document = ''d.pdf'', sec_title = ''Gamma'', sec_content = ''c'', sec_page_number = 3,
       sec_relevance_score = 2\<rparr>]"
  by (simp add: py_sorted_desc_def example_sections_def)

lemma rank_single: "rank_sections [s] 10 = [s]"
  by (simp add: rank_sections_def py_sorted_desc_def)

lemma ex_collection_ranks:
  "(case process_collection ''Travel Planner'' ''plan a trip'' [(''guide.pdf'', Inr example_pages)]
           ''2025-01-01T00:00:00'' of
      Inr out \<Rightarrow> out_extracted_sections out =
         [\<lparr>es_document = ''guide.pdf'', es_section_title = ''Recipe for Hotel'',
           es_importance_rank = 1, es_page_number = 1\<rparr>]
    | Inl e \<Rightarrow> False)"
  by (simp add: process_collection_def ex_sections rank_single enumerate_eq_zip Let_def)

theorem ranking_stable_top_witness:
  "rank_sections example_sections 2 =
     [\<lparr>sec_document = ''d.pdf'', sec_title = ''Beta'', sec_content = ''b'', sec_page_number = 2,
       sec_relevance_score = 5\<rparr>,
      \<lparr>sec_document = ''d.pdf'', sec_title = ''Alpha'', sec_content = ''a'', sec_page_number = 1,
       sec_relevance_score = 2\<rparr>]
   \<and> rank_sections (rank_sections example_sections 2) 2 = rank_sections example_sections 2
   \<and> (case process_collection ''Travel Planner'' ''plan a trip'' [(''guide.pdf'', Inr example_pages)]
           ''2025-01-01T00:00:00'' of
        Inr out \<Rightarrow> out_extracted_sections out =
           [\<lparr>es_document = ''guide.pdf'', es_section_title = ''Recipe for Hotel'',
             es_importance_rank = 1, es_page_number = 1\<rparr>]
      | Inl e \<Rightarrow> False)"
proof -
  from ranking_stable_top [of example_sections 2]
  have a: "rank_sections example_sections 2 = take 2 (py_sorted_desc sec_relevance_score example_sections)"
    and b: "rank_sections (rank_sections example_sections 2) 2 = rank_sections example_sections 2"
    by blast+
  from a b ex_collection_ranks show ?thesis by (simp add: ex_ranked)
qed

subsection \<open>Keywords of the refined text\<close>

lemma lower_char_fixed: "c \<notin> set ascii_upper \<Longrightarrow> lower_char c = c"
  by (simp add: lower_char_def ascii_upper_def ascii_lower_def)

lemma lower_char_not_upper: "lower_char c \<notin> set ascii_upper"
proof (cases "c \<in> set ascii_upper")
  case True
  then show ?thesis
    unfolding ascii_upper_def by (auto simp: lower_char_def ascii_upper_def ascii_lower_def)
next
  case False
  then show ?thesis by (simp add: lower_char_fixed)
qed

lemma lower_char_idem: "lower_char (lower_char c) = lower_char c"
  by (rule lower_char_fixed) (rule lower_char_not_upper)

lemma py_lower_idem: "py_lower (py_lower s) = py_lower s"
  by (simp add: py_lower_def lower_char_idem)

lemma py_lower_append: "py_lower (a @ b) = py_lower a @ py_lower b"
  by (simp add: py_lower_def)

lemma py_lower_fixed: "(\<And>c. c \<in> set s \<Longrightarrow> lower_char c = c) \<Longrightarrow> py_lower s = s"
  unfolding py_lower_def by (induction s) simp_all

lemma str_in_append: "str_in k a \<Longrightarrow> str_in k (a @ b)"
proof -
  assume "str_in k a"
  then obtain ps ss where "a = ps @ k @ ss" by (auto simp: str_in_def sublist_def)
  then have "a @ b = ps @ k @ (ss @ b)" by simp
  then show ?thesis unfolding str_in_def sublist_def by blast
qed

lemma str_in_middle: "str_in k (a @ k @ b)"
  unfolding str_in_def sublist_def by blast

lemma split_aux_chars: "w \<in> set (split_aux cur s) \<Longrightarrow> set w \<subseteq> set cur \<union> set s"
proof (induction s arbitrary: cur)
  case Nil
  then show ?case by (cases "cur = []") simp_all
next
  case (Cons c cs)
  show ?case
  proof (cases "is_space c")
    case True
    show ?thesis
    proof (cases "cur = []")
      case True
      with \<open>is_space c\<close> Cons.prems have "w \<in> set (split_aux [] cs)" by simp
      from Cons.IH [OF this] show ?thesis by auto
    next
      case False
      with \<open>is_space c\<close> Cons.prems have "w = cur \<or> w \<in> set (split_aux [] cs)" by simp
      then show ?thesis
      proof
        assume "w = cur"
        then show ?thesis by auto
      next
        assume "w \<in> set (split_aux [] cs)"
        from Cons.IH [OF this] show ?thesis by auto
      qed
    qed
  next
    case False
    with Cons.prems have "w \<in> set (split_aux (cur @ [c]) cs)" by simp
    from Cons.IH [OF this] show ?thesis by auto
  qed
qed

lemma job_words_lower:
  assumes "w \<in> set (job_words job)"
  shows "py_lower w = w"
proof (rule py_lower_fixed)
  fix c assume c: "c \<in> set w"
  from assms have "w \<in> set (split_aux [] (py_lower job))"
    by (simp add: job_words_def py_split_def)
  from split_aux_chars [OF this] c have "c \<in> set (py_lower job)" by auto
  then obtain d where "c = lower_char d" by (auto simp: py_lower_def)
  then show "lower_char c = c" by (simp add: lower_char_idem)
qed


lemma step_keeps:
  assumes "prefix e e'" "str_in w (py_lower e)"
  shows "str_in w (py_lower e')"
proof -
  from assms(1) obtain z where "e' = e @ z" by (auto simp: prefix_def)
  with assms(2) show ?thesis by (simp add: py_lower_append str_in_append)
qed

lemma foldl_steps:
  assumes pre: "\<And>e k. prefix e (f e k)"
    and has: "\<And>e k. py_lower k = k \<Longrightarrow> str_in k (py_lower (f e k))"
  shows "prefix e (foldl f e ks)"
    and "str_in w (py_lower e) \<Longrightarrow> str_in w (py_lower (foldl f e ks))"
    and "(\<And>k. k \<in> set ks \<Longrightarrow> py_lower k = k) \<Longrightarrow> k \<in> set ks
           \<Longrightarrow> str_in k (py_lower (foldl f e ks))"
proof -
  show p: "prefix e (foldl f e ks)" for e ks
  proof (induction ks arbitrary: e)
    case Nil
    then show ?case by simp
  next
    case (Cons a ks)
    have "prefix e (f e a)" by (rule pre)
    also have "prefix (f e a) (foldl f (f e a) ks)" by (rule Cons.IH)
    finally show ?case by simp
  qed
  show keeps: "str_in w (py_lower e) \<Longrightarrow> str_in w (py_lower (foldl f e ks))" for e ks w
    by (rule step_keeps [OF p])
  show "(\<And>k. k \<in> set ks \<Longrightarrow> py_lower k = k) \<Longrightarrow> k \<in> set ks
           \<Longrightarrow> str_in k (py_lower (foldl f e ks))"
  proof (induction ks arbitrary: e)
    case Nil
    then show ?case by simp
  next
    case (Cons a ks)
    show ?case
    proof (cases "k = a")
      case True
      with Cons.prems(1) have "py_lower a = a" by simp
      then have "str_in a (py_lower (f e a))" by (rule has)
      then have "str_in a (py_lower (foldl f (f e a) ks))" by (rule keeps)
      with True show ?thesis by simp
    next
      case False
      with Cons.prems(2) have "k \<in> set ks" by simp
      moreover have "\<And>k. k \<in> set ks \<Longrightarrow> py_lower k = k" using Cons.prems(1) by simp
      ultimately have "str_in k (py_lower (foldl f (f e a) ks))" by (rule Cons.IH [rotated])
      then show ?thesis by simp
    qed
  qed
qed

lemma add_keyword_prefix: "prefix e (add_keyword e k)"
  by (simp add: add_keyword_def)

lemma add_job_word_prefix: "prefix e (add_job_word e k)"
  by (simp add: add_job_word_def)

lemma lower_around:
  assumes "py_lower k = k"
  shows "str_in k (py_lower (e @ pre @ k @ post))"
proof -
  have "py_lower (e @ pre @ k @ post) = (py_lower e @ py_lower pre) @ k @ py_lower post"
    using assms by (simp only: py_lower_append append_assoc)
  then show ?thesis by (simp only: str_in_middle)
qed

lemma add_keyword_has:
  assumes "py_lower k = k"
  shows "str_in k (py_lower (add_keyword e k))"
proof (cases "str_in k (py_lower e)")
  case True
  then show ?thesis by (simp add: add_keyword_def)
next
  case False
  then have "add_keyword e k = e @ '' This '' @ k @ '' solution is ideal.''"
    by (simp only: add_keyword_def not_False_eq_True if_True)
  then show ?thesis by (simp only: lower_around [OF assms])
qed

lemma add_job_word_has:
  assumes "py_lower k = k"
  shows "str_in k (py_lower (add_job_word e k))"
proof (cases "str_in k (py_lower e)")
  case True
  then show ?thesis by (simp add: add_job_word_def)
next
  case False
  then have "add_job_word e k = e @ '' Perfect for '' @ k @ '' requirements.''"
    by (simp only: add_job_word_def not_False_eq_True if_True)
  then show ?thesis by (simp only: lower_around [OF assms])
qed

lemma validator_keywords_all_lower:
  "list_all (\<lambda>pk. list_all (\<lambda>k. py_lower k = k) (snd pk)) validator_keywords"
  by (simp add: validator_keywords_def py_lower_def lower_char_def ascii_upper_def ascii_lower_def)

lemma validator_keywords_lower:
  assumes "map_of validator_keywords persona = Some kws" "k \<in> set kws"
  shows "py_lower k = k"
proof -
  from assms(1) have "(persona, kws) \<in> set validator_keywords" by (rule map_of_SomeD)
  with validator_keywords_all_lower have "list_all (\<lambda>k. py_lower k = k) kws"
    by (auto simp: list_all_iff)
  with assms(2) show ?thesis by (simp add: list_all_iff)
qed

lemma enhance_structure:
  assumes "map_of validator_keywords persona = Some kws"
  shows "enhance_content_for_validation content persona job =
     foldl add_job_word
       (foldl add_keyword
          (if persona = ''Food Contractor'' then content @ food_contractor_context else content)
          kws)
       (job_words job)"
  using assms by (simp add: enhance_content_for_validation_def Let_def)

lemma enhance_keywords:
  assumes "map_of validator_keywords persona = Some kws"
  shows "prefix content (enhance_content_for_validation content persona job)"
    and "k \<in> set kws \<Longrightarrow> str_in k (py_lower (enhance_content_for_validation content persona job))"
    and "w \<in> set (job_words job) \<Longrightarrow> str_in w (py_lower (enhance_content_for_validation content persona job))"
proof -
  let ?e0 = "if persona = ''Food Contractor'' then content @ food_contractor_context else content"
  let ?e1 = "foldl add_keyword ?e0 kws"
  let ?e2 = "foldl add_job_word ?e1 (job_words job)"
  have eq: "enhance_content_for_validation content persona job = ?e2"
    using assms by (rule enhance_structure)
  have "prefix content ?e0" by simp
  also have "prefix ?e0 ?e1" by (rule foldl_steps(1) [OF add_keyword_prefix add_keyword_has])
  also have p2: "prefix ?e1 ?e2" by (rule foldl_steps(1) [OF add_job_word_prefix add_job_word_has])
  finally show "prefix content (enhance_content_for_validation content persona job)"
    by (simp only: eq)
  show "str_in k (py_lower (enhance_content_for_validation content persona job))"
    if k: "k \<in> set kws"
  proof -
    have low: "\<And>k. k \<in> set kws \<Longrightarrow> py_lower k = k"
      by (rule validator_keywords_lower [OF assms])
    from foldl_steps(3) [where f = add_keyword and ks = kws and k = k and e = "?e0",
        OF add_keyword_prefix add_keyword_has low k]
    have "str_in k (py_lower ?e1)" .
    then have "str_in k (py_lower ?e2)" by (rule step_keeps [OF p2])
    then show ?thesis by (simp only: eq)
  qed
  show "str_in w (py_lower (enhance_content_for_validation content persona job))"
    if w: "w \<in> set (job_words job)"
  proof -
    have low: "\<And>k. k \<in> set (job_words job) \<Longrightarrow> py_lower k = k"
      by (rule job_words_lower)
    from foldl_steps(3) [where f = add_job_word and ks = "job_words job" and k = w and e = "?e1",
        OF add_job_word_prefix add_job_word_has low w]
    have "str_in w (py_lower ?e2)" .
    then show ?thesis by (simp only: eq)
  qed
qed


lemma travel_validator:
  "map_of validator_keywords ''Travel Planner'' =
     Some [''trip'', ''travel'', ''hotel'', ''restaurant'', ''activity'', ''guide'', ''destination'']"
  by (simp add: validator_keywords_def)

lemma ex_upper_lower:
  "py_lower ''TRIP TRAVEL HOTEL RESTAURANT ACTIVITY GUIDE DESTINATION''
     = ''trip travel hotel restaurant activity guide destination''"
  by (simp add: lower_eval)

lemma ex_upper_keywords:
  "foldl add_keyword ''TRIP TRAVEL HOTEL RESTAURANT ACTIVITY GUIDE DESTINATION''
     [''trip'', ''travel'', ''hotel'', ''restaurant'', ''activity'', ''guide'', ''destination'']
   = ''TRIP TRAVEL HOTEL RESTAURANT ACTIVITY GUIDE DESTINATION''"
  by (simp add: add_keyword_def ex_upper_lower str_eval)

lemma ex_job_trip: "job_words ''TRIP'' = [''trip'']" "job_words ''a trip'' = [''trip'']"
  by (simp_all add: job_words_def lower_eval py_split_def is_space_def)

lemma ex_upper_enhanced:
  "enhance_content_for_validation ''TRIP TRAVEL HOTEL RESTAURANT ACTIVITY GUIDE DESTINATION''
     ''Travel Planner'' ''TRIP''
   = ''TRIP TRAVEL HOTEL RESTAURANT ACTIVITY GUIDE DESTINATION''"
  by (simp add: enhance_structure [OF travel_validator] ex_job_trip add_keyword_def
      add_job_word_def ex_upper_lower str_eval)

lemma ex_upper_no_trip:
  "\<not> str_in ''trip'' ''TRIP TRAVEL HOTEL RESTAURANT ACTIVITY GUIDE DESTINATION''"
  by (simp add: str_eval)

lemma ex_lower_lower:
  "py_lower ''trip travel hotel restaurant activity guide''
     = ''trip travel hotel restaurant activity guide''"
  "py_lower ''trip travel hotel restaurant activity guide This destination solution is ideal.''
     = ''trip travel hotel restaurant activity guide this destination solution is ideal.''"
  by (simp_all add: lower_eval)

lemma ex_lower_keywords:
  "foldl add_keyword ''trip travel hotel restaurant activity guide''
     [''trip'', ''travel'', ''hotel'', ''restaurant'', ''activity'', ''guide'', ''destination'']
   = ''trip travel hotel restaurant activity guide This destination solution is ideal.''"
  by (simp add: add_keyword_def ex_lower_lower str_eval)

lemma ex_lower_enhanced:
  "enhance_content_for_validation ''trip travel hotel restaurant activity guide''
     ''Travel Planner'' ''a trip''
   = ''trip travel hotel restaurant activity guide This destination solution is ideal.''"
  by (simp add: enhance_structure [OF travel_validator] ex_job_trip add_keyword_def
      add_job_word_def ex_lower_lower str_eval)


lemma collection_refined_texts:
  assumes "process_collection persona job documents now = Inr out"
    and "r \<in> set (out_refined_text out # map ss_refined_text (out_subsection_analysis out))"
  shows "\<exists>content. r = enhance_content_for_validation content persona job"
proof -
  from assms(1) obtain sections where s: "extract_sections documents persona job = Inr sections"
    by (cases "extract_sections documents persona job") (auto simp: process_collection_def)
  let ?top = "rank_sections sections 10"
  from assms(1) s have rt: "out_refined_text out
      = enhance_content_for_validation (refine_content ?top) persona job"
    and sa: "map ss_refined_text (out_subsection_analysis out)
      = map (\<lambda>s. enhance_content_for_validation (sec_content s) persona job) ?top"
    by (auto simp: process_collection_def Let_def comp_def)
  from assms(2) have "r = out_refined_text out
      \<or> r \<in> set (map ss_refined_text (out_subsection_analysis out))" by simp
  then show ?thesis
  proof
    assume "r = out_refined_text out"
    with rt show ?thesis by blast
  next
    assume "r \<in> set (map ss_refined_text (out_subsection_analysis out))"
    then have "r \<in> set (map (\<lambda>s. enhance_content_for_validation (sec_content s) persona job) ?top)"
      by (simp only: sa)
    then show ?thesis by auto
  qed
qed

text \<open>
  C4 (as amended). For every known persona, every \<open>refined_text\<close> emitted in
  \<open>subsection_analysis\<close>, and the flattened \<open>refined_text\<close> summary, contains
  case-insensitively (that is, its lower-cased form contains as a substring) each of
  that persona's validator keywords and each lower-cased word of the task description
  longer than 3 characters. The text passed in is a prefix of the result, and when such
  a keyword is absent from the lower-cased text passed in, synthetic text is appended,
  so the result is not purely extracted content.
\<close>

theorem refined_text_keywords:
  assumes "map_of validator_keywords persona = Some kws"
  shows "prefix content (enhance_content_for_validation content persona job)
     \<and> (\<forall>k \<in> set kws \<union> set (job_words job).
           str_in k (py_lower (enhance_content_for_validation content persona job)))
     \<and> ((\<exists>k \<in> set kws \<union> set (job_words job). \<not> str_in k (py_lower content))
           \<longrightarrow> enhance_content_for_validation content persona job \<noteq> content)
     \<and> (process_collection persona job documents now = Inr out \<longrightarrow>
           (\<forall>r \<in> set (out_refined_text out # map ss_refined_text (out_subsection_analysis out)).
              \<forall>k \<in> set kws \<union> set (job_words job). str_in k (py_lower r)))"
proof -
  have all: "str_in k (py_lower (enhance_content_for_validation c persona job))"
    if "k \<in> set kws \<union> set (job_words job)" for k c
    using that enhance_keywords(2) [OF assms] enhance_keywords(3) [OF assms] by blast
  have differs: "enhance_content_for_validation content persona job \<noteq> content"
    if "\<exists>k \<in> set kws \<union> set (job_words job). \<not> str_in k (py_lower content)"
  proof
    assume "enhance_content_for_validation content persona job = content"
    with all [of _ content] have "\<forall>k \<in> set kws \<union> set (job_words job). str_in k (py_lower content)"
      by simp
    with that show False by blast
  qed
  have coll: "\<forall>r \<in> set (out_refined_text out # map ss_refined_text (out_subsection_analysis out)).
              \<forall>k \<in> set kws \<union> set (job_words job). str_in k (py_lower r)"
    if "process_collection persona job documents now = Inr out"
  proof (intro ballI)
    fix r k
    assume r: "r \<in> set (out_refined_text out # map ss_refined_text (out_subsection_analysis out))"
      and k: "k \<in> set kws \<union> set (job_words job)"
    from collection_refined_texts [OF that r] obtain c
      where "r = enhance_content_for_validation c persona job" by blast
    with all [OF k] show "str_in k (py_lower r)" by simp
  qed
  from enhance_keywords(1) [OF assms] all differs coll show ?thesis by blast
qed

text \<open>
  The claim as stated fails on the case of the letters: a section content that holds
  every validator keyword and the task word in upper case passes the lower-cased test of
  every keyword, nothing is appended, and the refined text does not contain \<open>trip\<close> as a
  substring.
\<close>

theorem refined_text_keywords_counterexample:
  "map_of validator_keywords ''Travel Planner'' =
     Some [''trip'', ''travel'', ''hotel'', ''restaurant'', ''activity'', ''guide'', ''destination'']
   \<and> job_words ''TRIP'' = [''trip'']
   \<and> enhance_content_for_validation ''TRIP TRAVEL HOTEL RESTAURANT ACTIVITY GUIDE DESTINATION''
        ''Travel Planner'' ''TRIP''
      = ''TRIP TRAVEL HOTEL RESTAURANT ACTIVITY GUIDE DESTINATION''
   \<and> \<not> str_in ''trip''
        (enhance_content_for_validation ''TRIP TRAVEL HOTEL RESTAURANT ACTIVITY GUIDE DESTINATION''
           ''Travel Planner'' ''TRIP'')"
  by (simp add: travel_validator ex_job_trip ex_upper_enhanced ex_upper_no_trip)

theorem refined_text_keywords_witness:
  "enhance_content_for_validation ''trip travel hotel restaurant activity guide''
     ''Travel Planner'' ''a trip''
   = ''trip travel hotel restaurant activity guide This destination solution is ideal.''
   \<and> str_in ''destination''
       (py_lower (enhance_content_for_validation ''trip travel hotel restaurant activity guide''
          ''Travel Planner'' ''a trip''))
   \<and> \<not> str_in ''destination'' (py_lower ''trip travel hotel restaurant activity guide'')"
proof -
  from refined_text_keywords [OF travel_validator,
      of "''trip travel hotel restaurant activity guide''" "''a trip''"]
  have "str_in ''destination''
       (py_lower (enhance_content_for_validation ''trip travel hotel restaurant activity guide''
          ''Travel Planner'' ''a trip''))"
    by simp
  moreover have "\<not> str_in ''destination'' (py_lower ''trip travel hotel restaurant activity guide'')"
    by (simp add: ex_lower_lower str_eval)
  ultimately show ?thesis by (simp only: ex_lower_enhanced simp_thms)
qed

end
